theory Spec2Isabelle
  imports Main "HOL-Library.Sublist"
begin

text \<open>
  The acquisition pipeline of the recognition server: the media downloader with its
  header strategies and retry loop, the MIME allow-list, the temp-file cleanup, the
  MongoDB cache, and the image and video tools that drive them. Network, disk failures,
  database failures, library functions and the Gemini service are parameters of the
  model (\<open>env\<close>); what the program changes is passed along as \<open>world\<close>.
\<close>


section \<open>JavaScript strings\<close>

text \<open>
  Strings are lists of 8-bit characters. HTTP header values reach the program as
  Latin-1 strings, so every code unit of a Content-Type value is a \<open>char\<close>.
  \<open>isWhiteSpace\<close> lists the white space and line terminators of ECMAScript that
  lie in this range (TAB, LF, VT, FF, CR, SP, NBSP); \<open>toLowerChar\<close> is
  \<open>String.prototype.toLowerCase\<close> on one Latin-1 code unit.
\<close>

definition isWhiteSpace :: "char \<Rightarrow> bool" where
  "isWhiteSpace c = (of_char c \<in> {9, 10, 11, 12, 13, 32, 160 :: nat})"

definition trim :: "string \<Rightarrow> string" where
  "trim s = rev (dropWhile isWhiteSpace (rev (dropWhile isWhiteSpace s)))"

definition toLowerChar :: "char \<Rightarrow> char" where
  "toLowerChar c =
     (let n = (of_char c :: nat)
      in if (65 \<le> n \<and> n \<le> 90) \<or> (192 \<le> n \<and> n \<le> 222 \<and> n \<noteq> 215)
         then char_of (n + 32) else c)"

definition toLowerCase :: "string \<Rightarrow> string" where
  "toLowerCase s = map toLowerChar s"

text \<open>\<open>s.split(c)[0]\<close>: the part of \<open>s\<close> before the first \<open>c\<close>.\<close>

definition split_first :: "char \<Rightarrow> string \<Rightarrow> string" where
  "split_first c s = takeWhile (\<lambda>x. x \<noteq> c) s"

definition startsWith :: "string \<Rightarrow> string \<Rightarrow> bool" where
  "startsWith s p = prefix p s"

text \<open>\<open>s.includes(pat)\<close>.\<close>

fun str_includes :: "string \<Rightarrow> string \<Rightarrow> bool" where
  "str_includes [] pat = (pat = [])"
| "str_includes (c # cs) pat = (prefix pat (c # cs) \<or> str_includes cs pat)"

text \<open>\<open>s.replace(pat, rep)\<close> with a string pattern: the first occurrence only.\<close>

fun replace_first :: "string \<Rightarrow> string \<Rightarrow> string \<Rightarrow> string" where
  "replace_first pat rep [] = (if pat = [] then rep else [])"
| "replace_first pat rep (c # cs) =
     (if prefix pat (c # cs) then rep @ drop (length pat) (c # cs)
      else c # replace_first pat rep cs)"

text \<open>Decimal rendering of a number inside a template string.\<close>

fun string_of_nat :: "nat \<Rightarrow> string" where
  "string_of_nat n =
     (if n < 10 then [char_of (48 + n)]
      else string_of_nat (n div 10) @ [char_of (48 + n mod 10)])"

declare string_of_nat.simps [simp del]

text \<open>
  Truthiness of an optional string (\<open>undefined\<close> and \<open>''''\<close> are falsy), and
  \<open>a || b\<close> on strings.
\<close>

definition truthy :: "string option \<Rightarrow> bool" where
  "truthy v = (case v of None \<Rightarrow> False | Some s \<Rightarrow> s \<noteq> [])"

definition or_default :: "string option \<Rightarrow> string \<Rightarrow> string" where
  "or_default v d = (case v of None \<Rightarrow> d | Some s \<Rightarrow> if s = [] then d else s)"

section \<open>MediaDownloaderService: the MIME allow-list\<close>

definition supportedMimeTypes :: "string set" where
  "supportedMimeTypes =
     {''image/jpeg'', ''image/jpg'', ''image/png'', ''image/gif'', ''image/webp'',
      ''image/bmp'',
      ''video/mp4'', ''video/mpeg'', ''video/quicktime'', ''video/x-msvideo'',
      ''video/webm'', ''video/ogg''}"

definition isSupported :: "string \<Rightarrow> bool" where
  "isSupported mimeType =
     (if mimeType = [] then False
      else (let baseMimeType = toLowerCase (trim (split_first CHR '';'' mimeType))
            in baseMimeType \<in> supportedMimeTypes))"

section \<open>The world outside the program\<close>

text \<open>
  A thrown JavaScript value. \<open>AxiosError response code message\<close> is an error for
  which \<open>axios.isAxiosError\<close> holds; \<open>response\<close> is the status and status text
  of the HTTP response when the server answered. \<open>PlainError message\<close> is any
  other \<open>Error\<close>.
\<close>

datatype js_error =
  AxiosError "(nat \<times> string) option" string string
| PlainError string

fun message :: "js_error \<Rightarrow> string" where
  "message (AxiosError response code msg) = msg"
| "message (PlainError msg) = msg"

type_synonym headers = "(string \<times> string) list"
type_synonym buffer = "char list"

datatype http_method = HEAD | GET

record http_response =
  resp_headers :: "string \<Rightarrow> string option"
  resp_data :: buffer

record gemini_file =
  uri :: string
  file_mimeType :: string

record gemini_response =
  response_text :: string
  response_isError :: bool

text \<open>
  The collaborators and library functions that are not code of the services: the HTTP
  client (\<open>axios.head\<close>, \<open>axios.get\<close> with its \<open>maxContentLength\<close>), the failures
  of the file system and of the database driver, the WHATWG URL parser
  (\<open>url_pathname\<close> is \<open>None\<close> when \<open>new URL\<close> throws), \<open>node:path\<close>,
  \<open>mime.extension\<close> (\<open>None\<close> for \<open>false\<close>), the MD5 digest in hex, the 4 random
  bytes in hex, the Gemini service and the clock.
\<close>

record env =
  axios_head :: "string \<Rightarrow> headers \<Rightarrow> js_error + http_response"
  axios_get :: "string \<Rightarrow> headers \<Rightarrow> nat \<Rightarrow> js_error + http_response"
  write_error :: "string \<Rightarrow> js_error option"
  unlink_error :: "string \<Rightarrow> js_error option"
  find_error :: "js_error option"
  insert_error :: "js_error option"
  url_pathname :: "string \<Rightarrow> string option"
  path_basename :: "string \<Rightarrow> string"
  path_extname :: "string \<Rightarrow> string"
  mime_extension :: "string \<Rightarrow> string option"
  md5_hex :: "string \<Rightarrow> string"
  random_hex :: string
  uploadFile :: "string \<Rightarrow> js_error + gemini_file"
  processFile :: "gemini_file \<Rightarrow> string \<Rightarrow> string \<Rightarrow> js_error + gemini_response"
  now :: nat

record analysis_params =
  prompt :: string
  result :: string
  model :: string

record analysis = analysis_params +
  analyzedAt :: nat

record media_document =
  doc_id :: "nat option"
  doc_url :: string
  doc_filename :: string
  doc_mimeType :: string
  doc_fileData :: buffer
  doc_fileSize :: nat
  uploadedAt :: nat
  doc_analysis :: "analysis option"

datatype log_level = LogInfo | LogError

text \<open>
  The state the program changes: the files on disk, the HTTP requests issued so far
  (oldest first), the \<open>media\<close> collection (\<open>None\<close> while \<open>mediaCollection\<close> is
  \<open>null\<close>, else the documents in insertion order) and the lines handed to the
  logger by \<open>cleanupTempFile\<close> and by the \<open>catch\<close> around \<open>saveMedia\<close> in
  the tools (the other log lines of the program are left out).
\<close>

record world =
  files :: "string \<Rightarrow> buffer option"
  requests :: "(http_method \<times> string \<times> headers) list"
  mediaCollection :: "media_document list option"
  log_lines :: "(log_level \<times> string) list"

record downloader =
  maxFileSize :: nat
  tempDir :: string

text \<open>The constructor's default: 100 MB.\<close>

definition default_maxFileSize :: nat where
  "default_maxFileSize = 100 * 1024 * 1024"

text \<open>
  \<open>path.join(this.tempDir, filename)\<close> for a directory and a file name.
\<close>

definition path_join :: "string \<Rightarrow> string \<Rightarrow> string" where
  "path_join dir name = dir @ ''/'' @ name"

definition existsSync :: "world \<Rightarrow> string \<Rightarrow> bool" where
  "existsSync w p = (files w p \<noteq> None)"

definition writeFileSync :: "env \<Rightarrow> string \<Rightarrow> buffer \<Rightarrow> world \<Rightarrow> js_error + world" where
  "writeFileSync e p bytes w =
     (case write_error e p of
        Some err \<Rightarrow> Inl err
      | None \<Rightarrow> Inr (w\<lparr>files := (files w)(p \<mapsto> bytes)\<rparr>))"

definition unlinkSync :: "env \<Rightarrow> string \<Rightarrow> world \<Rightarrow> js_error + world" where
  "unlinkSync e p w =
     (case unlink_error e p of
        Some err \<Rightarrow> Inl err
      | None \<Rightarrow> Inr (w\<lparr>files := (files w)(p := None)\<rparr>))"

section \<open>MediaDownloaderService\<close>

subsection \<open>Header strategies\<close>

definition facebook_strategies :: "headers list" where
  "facebook_strategies =
     [[(''User-Agent'', ''Mozilla/5.0 (Windows NT 10.0; Win64; x64) AppleWebKit/537.36 (KHTML, like Gecko) Chrome/120.0.0.0 Safari/537.36''),
       (''Accept'', ''text/html,application/xhtml+xml,application/xml;q=0.9,image/webp,image/apng,*/*;q=0.8,application/signed-exchange;v=b3;q=0.7''),
       (''Accept-Language'', ''en-US,en;q=0.9''),
       (''Accept-Encoding'', ''gzip, deflate, br''),
       (''Referer'', ''https://www.facebook.com/''),
       (''Origin'', ''https://www.facebook.com''),
       (''DNT'', ''1''),
       (''Connection'', ''keep-alive''),
       (''Upgrade-Insecure-Requests'', ''1''),
       (''Sec-Fetch-Dest'', ''video''),
       (''Sec-Fetch-Mode'', ''no-cors''),
       (''Sec-Fetch-Site'', ''cross-site'')],
      [(''User-Agent'', ''Mozilla/5.0 (Windows NT 10.0; Win64; x64) AppleWebKit/537.36 (KHTML, like Gecko) Chrome/120.0.0.0 Safari/537.36''),
       (''Accept'', ''*/*''),
       (''Accept-Language'', ''en-US,en;q=0.9''),
       (''Referer'', ''https://www.facebook.com/'')]]"

definition instagram_strategies :: "headers list" where
  "instagram_strategies =
     [[(''User-Agent'', ''Mozilla/5.0 (Windows NT 10.0; Win64; x64) AppleWebKit/537.36 (KHTML, like Gecko) Chrome/120.0.0.0 Safari/537.36''),
       (''Accept'', ''*/*''),
       (''Accept-Language'', ''en-US,en;q=0.9''),
       (''Referer'', ''https://www.instagram.com/''),
       (''Origin'', ''https://www.instagram.com'')]]"

definition default_strategies :: "headers list" where
  "default_strategies =
     [[(''User-Agent'', ''Mozilla/5.0 (Windows NT 10.0; Win64; x64) AppleWebKit/537.36 (KHTML, like Gecko) Chrome/120.0.0.0 Safari/537.36''),
       (''Accept'', ''text/html,application/xhtml+xml,application/xml;q=0.9,image/webp,image/apng,*/*;q=0.8''),
       (''Accept-Language'', ''en-US,en;q=0.9''),
       (''Accept-Encoding'', ''gzip, deflate, br''),
       (''DNT'', ''1''),
       (''Connection'', ''keep-alive''),
       (''Upgrade-Insecure-Requests'', ''1'')],
      [(''User-Agent'', ''Mozilla/5.0 (Windows NT 10.0; Win64; x64; rv:109.0) Gecko/20100101 Firefox/121.0''),
       (''Accept'', ''text/html,application/xhtml+xml,application/xml;q=0.9,image/avif,image/webp,*/*;q=0.8''),
       (''Accept-Language'', ''en-US,en;q=0.5''),
       (''Accept-Encoding'', ''gzip, deflate, br''),
       (''DNT'', ''1''),
       (''Connection'', ''keep-alive''),
       (''Upgrade-Insecure-Requests'', ''1'')],
      [(''User-Agent'', ''MCP-Video-Recognition/1.0 (+https://github.com/mario-andreschak/mcp_video_recognition)''),
       (''Accept'', ''*/*'')]]"

text \<open>
  The source also computes \<open>isTwitterUrl\<close> and never reads it: Twitter hosts get the
  default list.
\<close>

definition getStrategiesForUrl :: "string \<Rightarrow> headers list" where
  "getStrategiesForUrl url =
     (let isFacebookUrl = str_includes url ''fbcdn.net'' \<or> str_includes url ''facebook.com'';
          isInstagramUrl = str_includes url ''cdninstagram.com'' \<or> str_includes url ''instagram.com''
      in if isFacebookUrl then facebook_strategies
         else if isInstagramUrl then instagram_strategies
         else default_strategies)"

subsection \<open>generateFilename\<close>

definition generateFilename :: "env \<Rightarrow> string \<Rightarrow> string \<Rightarrow> string" where
  "generateFilename e url mimeType =
     (case url_pathname e url of
        Some pathname \<Rightarrow>
          (let basename = path_basename e pathname
           in if basename \<noteq> [] \<and> CHR ''.'' \<in> set basename then basename
              else (let extension = (case mime_extension e mimeType of Some x \<Rightarrow> (if x = [] then ''bin'' else x) | None \<Rightarrow> ''bin'');
                        hash = take 8 (md5_hex e url)
                    in ''media_'' @ hash @ ''.'' @ extension))
      | None \<Rightarrow>
          (let extension = (case mime_extension e mimeType of Some x \<Rightarrow> (if x = [] then ''bin'' else x) | None \<Rightarrow> ''bin'');
               randomId = random_hex e
           in ''media_'' @ randomId @ ''.'' @ extension))"

subsection \<open>downloadWithRetry\<close>

record download_result =
  filepath :: string
  filename :: string
  mimeType :: string
  fileData :: buffer
  fileSize :: nat

text \<open>
  The test of the \<open>catch\<close> block: an axios error that carries a response whose
  status is 403, 401 or 429 lets the loop \<open>continue\<close>.
\<close>

definition isSoft :: "js_error \<Rightarrow> bool" where
  "isSoft error =
     (case error of
        AxiosError response code msg \<Rightarrow>
          (case response of
             Some (status, statusText) \<Rightarrow> status = 403 \<or> status = 401 \<or> status = 429
           | None \<Rightarrow> False)
      | PlainError msg \<Rightarrow> False)"

text \<open>
  The body of the \<open>try\<close> block for one header set. The HEAD probe is recorded and
  its failure swallowed; its Content-Length is parsed by the source and never read,
  so it is left out.
\<close>

definition tryStrategy ::
  "env \<Rightarrow> downloader \<Rightarrow> string \<Rightarrow> headers \<Rightarrow> world \<Rightarrow> (js_error + download_result) \<times> world" where
  "tryStrategy e svc url hdrs w =
     (let w1 = w\<lparr>requests := requests w @ [(HEAD, url, hdrs)]\<rparr>;
          probed = (case axios_head e url hdrs of
                      Inl headError \<Rightarrow> None
                    | Inr headResponse \<Rightarrow> resp_headers headResponse ''content-type'');
          w2 = w1\<lparr>requests := requests w1 @ [(GET, url, hdrs)]\<rparr>
      in case axios_get e url hdrs (maxFileSize svc) of
           Inl err \<Rightarrow> (Inl err, w2)
         | Inr response \<Rightarrow>
             (let contentType = (if truthy probed then probed
                                 else resp_headers response ''content-type'')
              in if truthy contentType \<and> \<not> isSupported (or_default contentType [])
                 then (Inl (PlainError (''Unsupported media type: '' @ or_default contentType [])), w2)
                 else if length (resp_data response) > maxFileSize svc
                 then (Inl (PlainError (''File too large: '' @ string_of_nat (length (resp_data response))
                             @ '' bytes (max: '' @ string_of_nat (maxFileSize svc) @ '' bytes)'')), w2)
                 else (let fname = generateFilename e url (or_default contentType ''application/octet-stream'');
                           fpath = path_join (tempDir svc) fname
                       in case writeFileSync e fpath (resp_data response) w2 of
                            Inl err \<Rightarrow> (Inl err, w2)
                          | Inr w3 \<Rightarrow>
                              (Inr \<lparr>filepath = fpath, filename = fname,
                                    mimeType = or_default contentType ''application/octet-stream'',
                                    fileData = resp_data response,
                                    fileSize = length (resp_data response)\<rparr>, w3))))"

text \<open>
  The \<open>for\<close> loop over the strategies, from the current one on; \<open>lastError\<close> is
  the variable of the source.
\<close>

fun downloadLoop ::
  "env \<Rightarrow> downloader \<Rightarrow> string \<Rightarrow> headers list \<Rightarrow> js_error option \<Rightarrow> world
     \<Rightarrow> (js_error + download_result) \<times> world" where
  "downloadLoop e svc url [] lastError w =
     (Inl (case lastError of
             Some err \<Rightarrow> err
           | None \<Rightarrow> PlainError ''All download strategies failed''), w)"
| "downloadLoop e svc url (hdrs # rest) lastError w =
     (case tryStrategy e svc url hdrs w of
        (Inr r, w') \<Rightarrow> (Inr r, w')
      | (Inl err, w') \<Rightarrow>
          if isSoft err then downloadLoop e svc url rest (Some err) w'
          else (Inl err, w'))"

definition downloadWithRetry ::
  "env \<Rightarrow> downloader \<Rightarrow> string \<Rightarrow> world \<Rightarrow> (js_error + download_result) \<times> world" where
  "downloadWithRetry e svc url w = downloadLoop e svc url (getStrategiesForUrl url) None w"

definition downloadMedia ::
  "env \<Rightarrow> downloader \<Rightarrow> string \<Rightarrow> world \<Rightarrow> (js_error + download_result) \<times> world" where
  "downloadMedia e svc url w =
     (case downloadWithRetry e svc url w of
        (Inr r, w') \<Rightarrow> (Inr r, w')
      | (Inl err, w') \<Rightarrow>
          (Inl (case err of
                  AxiosError response code msg \<Rightarrow>
                    (case response of
                       Some (status, statusText) \<Rightarrow>
                         PlainError (''Download failed with status '' @ string_of_nat status
                                     @ '': '' @ statusText)
                     | None \<Rightarrow>
                         if code = ''ECONNABORTED'' then PlainError ''Download timeout''
                         else PlainError (''Network error: '' @ msg))
                | PlainError msg \<Rightarrow> err), w'))"

subsection \<open>cleanupTempFile\<close>

text \<open>
  The whole body is inside \<open>try\<close>; the \<open>catch\<close> only logs. The result is a sum
  so that an escaping exception would be \<open>Inl\<close>.
\<close>

definition cleanupTempFile :: "env \<Rightarrow> string \<Rightarrow> world \<Rightarrow> js_error + world" where
  "cleanupTempFile e fpath w =
     (case (if existsSync w fpath
            then (case unlinkSync e fpath w of
                    Inl err \<Rightarrow> Inl err
                  | Inr w' \<Rightarrow>
                      Inr (w'\<lparr>log_lines := log_lines w'
                              @ [(LogInfo, ''Cleaned up temp file: '' @ fpath)]\<rparr>))
            else Inr w) of
        Inl err \<Rightarrow>
          Inr (w\<lparr>log_lines := log_lines w
                 @ [(LogError, ''Error cleaning up temp file: '' @ fpath)]\<rparr>)
      | Inr w' \<Rightarrow> Inr w')"

section \<open>MongoDBService\<close>

definition saveMedia ::
  "env \<Rightarrow> string \<Rightarrow> string \<Rightarrow> string \<Rightarrow> buffer \<Rightarrow> analysis_params option \<Rightarrow> world
     \<Rightarrow> js_error + media_document \<times> world" where
  "saveMedia e url fname mime bytes an w =
     (case mediaCollection w of
        None \<Rightarrow> Inl (PlainError ''MongoDB not connected'')
      | Some docs \<Rightarrow>
          (let document =
                 \<lparr>doc_id = None, doc_url = url, doc_filename = fname, doc_mimeType = mime,
                  doc_fileData = bytes, doc_fileSize = length bytes, uploadedAt = now e,
                  doc_analysis =
                    (case an of
                       None \<Rightarrow> None
                     | Some a \<Rightarrow>
                         Some \<lparr>prompt = prompt a, result = result a, model = model a,
                               analyzedAt = now e\<rparr>)\<rparr>
           in case insert_error e of
                Some err \<Rightarrow> Inl err
              | None \<Rightarrow>
                  (let inserted = document\<lparr>doc_id := Some (length docs)\<rparr>
                   in Inr (inserted, w\<lparr>mediaCollection := Some (docs @ [inserted])\<rparr>))))"

text \<open>\<open>findOne({ url })\<close>: the first document of the collection with that URL.\<close>

definition findByUrl :: "env \<Rightarrow> world \<Rightarrow> string \<Rightarrow> js_error + media_document option" where
  "findByUrl e w url =
     (case mediaCollection w of
        None \<Rightarrow> Inl (PlainError ''MongoDB not connected'')
      | Some docs \<Rightarrow>
          (case find_error e of
             Some err \<Rightarrow> Inl err
           | None \<Rightarrow> Inr (find (\<lambda>d. doc_url d = url) docs)))"

section \<open>The recognition tools\<close>

text \<open>
  The callbacks of the image tool and of the video tool. The audio tool has the same
  shape and is not part of this development.
\<close>

record recognition_params =
  arg_filepath :: "string option"
  arg_url :: "string option"
  arg_prompt :: "string option"
  arg_modelname :: "string option"
  saveToDb :: bool

record call_tool_result =
  content_text :: string
  is_error :: bool

text \<open>
  The local variables of a callback once its input is resolved. \<open>fileData\<close>,
  \<open>filename\<close> and \<open>mimeType\<close> stay unassigned on one path of the video tool.
\<close>

record resolved_media =
  r_filepath :: string
  r_fileData :: "buffer option"
  r_mimeType :: "string option"
  r_filename :: "string option"
  r_sourceUrl :: "string option"

datatype resolution = CacheHit call_tool_result | Resolved resolved_media

text \<open>An argument that is present and truthy.\<close>

definition given :: "string option \<Rightarrow> string option" where
  "given v = (if truthy v then v else None)"

text \<open>
  The \<open>finally\<close> block of a callback, applied to what the \<open>try\<close>/\<open>catch\<close>
  produced. A tool's result is \<open>Inl\<close> when an exception leaves the callback.
\<close>

definition cleanup_finally ::
  "env \<Rightarrow> string option \<Rightarrow> (js_error + call_tool_result) \<times> world
     \<Rightarrow> (js_error + call_tool_result) \<times> world" where
  "cleanup_finally e tempFilePath rw =
     (case rw of
        (r, w) \<Rightarrow>
          (case given tempFilePath of
             Some p \<Rightarrow>
               (case cleanupTempFile e p w of
                  Inl err \<Rightarrow> (Inl err, w)
                | Inr w' \<Rightarrow> (r, w'))
           | None \<Rightarrow> (r, w)))"

text \<open>
  The MongoDB step of a callback: \<open>saveMedia\<close> inside its own \<open>try\<close>, whose
  \<open>catch\<close> only logs an error line. Reading \<open>fileData.length\<close> of an unassigned buffer
  throws inside that \<open>try\<close>.
\<close>

definition save_step :: "env \<Rightarrow> resolved_media \<Rightarrow> analysis_params \<Rightarrow> world \<Rightarrow> world" where
  "save_step e med an w =
     (case (case (r_fileData med, r_filename med, r_mimeType med) of
              (Some bytes, Some fname, Some mime) \<Rightarrow>
                (case given (r_sourceUrl med) of
                   Some sourceUrl \<Rightarrow> saveMedia e sourceUrl fname mime bytes (Some an) w
                 | None \<Rightarrow> saveMedia e (r_filepath med) fname mime bytes (Some an) w)
            | _ \<Rightarrow> Inl (PlainError ''Cannot read properties of undefined'')) of
        Inl dbError \<Rightarrow> w\<lparr>log_lines := log_lines w @ [(LogError, ''Failed to save to MongoDB'')]\<rparr>
      | Inr (document, w') \<Rightarrow> w')"

subsection \<open>image_recognition\<close>

definition image_resolve ::
  "env \<Rightarrow> downloader \<Rightarrow> recognition_params \<Rightarrow> world
     \<Rightarrow> (js_error + resolution) \<times> string option \<times> world" where
  "image_resolve e svc args w =
     (case given (arg_url args) of
        Some url \<Rightarrow>
          (case findByUrl e w url of
             Inl err \<Rightarrow> (Inl err, None, w)
           | Inr existingMedia \<Rightarrow>
               (case (case existingMedia of None \<Rightarrow> None | Some d \<Rightarrow> doc_analysis d) of
                  Some a \<Rightarrow>
                    (Inr (CacheHit \<lparr>content_text = result a, is_error = False\<rparr>), None, w)
                | None \<Rightarrow>
                    (case downloadMedia e svc url w of
                       (Inl err, w1) \<Rightarrow> (Inl err, None, w1)
                     | (Inr downloadResult, w1) \<Rightarrow>
                         if \<not> startsWith (mimeType downloadResult) ''image/''
                         then (Inl (PlainError (''URL does not point to an image file. MIME type: ''
                                      @ mimeType downloadResult)),
                               Some (filepath downloadResult), w1)
                         else (Inr (Resolved
                                 \<lparr>r_filepath = filepath downloadResult,
                                  r_fileData = Some (fileData downloadResult),
                                  r_mimeType = Some (mimeType downloadResult),
                                  r_filename = Some (filename downloadResult),
                                  r_sourceUrl = Some url\<rparr>),
                               Some (filepath downloadResult), w1))))
      | None \<Rightarrow>
          (case given (arg_filepath args) of
             Some fp \<Rightarrow>
               if \<not> existsSync w fp
               then (Inl (PlainError (''Image file not found: '' @ fp)), None, w)
               else (let ext = toLowerCase (path_extname e fp)
                     in if ext \<notin> {''.jpg'', ''.jpeg'', ''.png'', ''.webp''}
                        then (Inl (PlainError (''Unsupported image format: '' @ ext
                                     @ ''. Supported formats are: .jpg, .jpeg, .png, .webp'')),
                              None, w)
                        else (Inr (Resolved
                                \<lparr>r_filepath = fp,
                                 r_fileData = files w fp,
                                 r_mimeType = Some (''image/'' @ replace_first ''jpg'' ''jpeg'' (drop 1 ext)),
                                 r_filename = Some (path_basename e fp),
                                 r_sourceUrl = None\<rparr>),
                              None, w))
           | None \<Rightarrow>
               (Inl (PlainError ''Either filepath or url must be provided''), None, w)))"

definition image_analyse ::
  "env \<Rightarrow> recognition_params \<Rightarrow> resolved_media \<Rightarrow> world
     \<Rightarrow> (js_error + call_tool_result) \<times> world" where
  "image_analyse e args med w =
     (let prompt_text = or_default (arg_prompt args) ''Describe this image'';
          modelName = or_default (arg_modelname args) ''gemini-2.5-flash''
      in case uploadFile e (r_filepath med) of
           Inl err \<Rightarrow> (Inl err, w)
         | Inr file \<Rightarrow>
             (case processFile e file prompt_text modelName of
                Inl err \<Rightarrow> (Inl err, w)
              | Inr res \<Rightarrow>
                  if response_isError res
                  then (Inr \<lparr>content_text = response_text res, is_error = True\<rparr>, w)
                  else (Inr \<lparr>content_text = response_text res, is_error = False\<rparr>,
                        save_step e med
                          \<lparr>prompt = prompt_text, result = response_text res, model = modelName\<rparr> w)))"

definition image_catch :: "js_error \<Rightarrow> call_tool_result" where
  "image_catch err =
     \<lparr>content_text = ''Error processing image: '' @ message err, is_error = True\<rparr>"

definition image_recognition ::
  "env \<Rightarrow> downloader \<Rightarrow> recognition_params \<Rightarrow> world
     \<Rightarrow> (js_error + call_tool_result) \<times> world" where
  "image_recognition e svc args w =
     (case image_resolve e svc args w of
        (Inl err, tempFilePath, w1) \<Rightarrow>
          cleanup_finally e tempFilePath (Inr (image_catch err), w1)
      | (Inr (CacheHit r), tempFilePath, w1) \<Rightarrow>
          cleanup_finally e tempFilePath (Inr r, w1)
      | (Inr (Resolved med), tempFilePath, w1) \<Rightarrow>
          (case image_analyse e args med w1 of
             (Inl err, w2) \<Rightarrow> cleanup_finally e tempFilePath (Inr (image_catch err), w2)
           | (Inr r, w2) \<Rightarrow> cleanup_finally e tempFilePath (Inr r, w2)))"

subsection \<open>video_recognition\<close>

definition video_resolve ::
  "env \<Rightarrow> downloader \<Rightarrow> recognition_params \<Rightarrow> world
     \<Rightarrow> (js_error + resolution) \<times> string option \<times> world" where
  "video_resolve e svc args w =
     (case given (arg_url args) of
        Some url \<Rightarrow>
          (case findByUrl e w url of
             Inl err \<Rightarrow> (Inl err, None, w)
           | Inr existingMedia \<Rightarrow>
               (case (case existingMedia of None \<Rightarrow> None | Some d \<Rightarrow> doc_analysis d) of
                  Some a \<Rightarrow>
                    (Inr (CacheHit \<lparr>content_text = result a, is_error = False\<rparr>), None, w)
                | None \<Rightarrow>
                    (case downloadMedia e svc url w of
                       (Inl err, w1) \<Rightarrow> (Inl err, None, w1)
                     | (Inr downloadResult, w1) \<Rightarrow>
                         if \<not> startsWith (mimeType downloadResult) ''video/''
                         then (Inl (PlainError (''URL does not point to a video file. MIME type: ''
                                      @ mimeType downloadResult)),
                               Some (filepath downloadResult), w1)
                         else (Inr (Resolved
                                 \<lparr>r_filepath = filepath downloadResult,
                                  r_fileData = Some (fileData downloadResult),
                                  r_mimeType = Some (mimeType downloadResult),
                                  r_filename = Some (filename downloadResult),
                                  r_sourceUrl = Some url\<rparr>),
                               Some (filepath downloadResult), w1))))
      | None \<Rightarrow>
          (case given (arg_filepath args) of
             Some fp \<Rightarrow>
               if \<not> existsSync w fp
               then (Inl (PlainError (''Video file not found: '' @ fp)), None, w)
               else (let ext = toLowerCase (path_extname e fp)
                     in if ext \<noteq> ''.mp4'' \<and> ext \<noteq> ''.mpeg'' \<and> ext \<noteq> ''.mov''
                           \<and> ext \<noteq> ''.avi'' \<and> ext \<noteq> ''.webm''
                        then (Inl (PlainError (''Unsupported video format: '' @ ext
                                     @ ''. Supported formats are: .mp4, .mpeg, .mov, .avi, .webm'')),
                              None, w)
                        else if saveToDb args
                        then (Inr (Resolved
                                \<lparr>r_filepath = fp,
                                 r_fileData = files w fp,
                                 r_mimeType = Some (''video/'' @ drop 1 ext),
                                 r_filename = Some (path_basename e fp),
                                 r_sourceUrl = None\<rparr>),
                              None, w)
                        else (Inr (Resolved
                                \<lparr>r_filepath = fp, r_fileData = None, r_mimeType = None,
                                 r_filename = None, r_sourceUrl = None\<rparr>),
                              None, w))
           | None \<Rightarrow>
               (Inl (PlainError ''Either filepath or url must be provided''), None, w)))"

definition video_analyse ::
  "env \<Rightarrow> recognition_params \<Rightarrow> resolved_media \<Rightarrow> world
     \<Rightarrow> (js_error + call_tool_result) \<times> world" where
  "video_analyse e args med w =
     (let prompt_text = or_default (arg_prompt args) ''Describe this video'';
          modelName = or_default (arg_modelname args) ''gemini-2.5-flash''
      in case uploadFile e (r_filepath med) of
           Inl err \<Rightarrow> (Inl err, w)
         | Inr file \<Rightarrow>
             (case processFile e file prompt_text modelName of
                Inl err \<Rightarrow> (Inl err, w)
              | Inr res \<Rightarrow>
                  if response_isError res
                  then (Inr \<lparr>content_text = response_text res, is_error = True\<rparr>, w)
                  else (Inr \<lparr>content_text = response_text res, is_error = False\<rparr>,
                        if saveToDb args
                        then save_step e med
                               \<lparr>prompt = prompt_text, result = response_text res, model = modelName\<rparr> w
                        else w)))"

definition video_catch :: "js_error \<Rightarrow> call_tool_result" where
  "video_catch err =
     \<lparr>content_text = ''Error processing video: '' @ message err, is_error = True\<rparr>"

definition video_recognition ::
  "env \<Rightarrow> downloader \<Rightarrow> recognition_params \<Rightarrow> world
     \<Rightarrow> (js_error + call_tool_result) \<times> world" where
  "video_recognition e svc args w =
     (case video_resolve e svc args w of
        (Inl err, tempFilePath, w1) \<Rightarrow>
          cleanup_finally e tempFilePath (Inr (video_catch err), w1)
      | (Inr (CacheHit r), tempFilePath, w1) \<Rightarrow>
          cleanup_finally e tempFilePath (Inr r, w1)
      | (Inr (Resolved med), tempFilePath, w1) \<Rightarrow>
          (case video_analyse e args med w1 of
             (Inl err, w2) \<Rightarrow> cleanup_finally e tempFilePath (Inr (video_catch err), w2)
           | (Inr r, w2) \<Rightarrow> cleanup_finally e tempFilePath (Inr r, w2)))"

section \<open>Vocabulary of the properties\<close>

text \<open>
  The requests the retry loop issues when it tries the header sets \<open>hs\<close> in order: a
  HEAD probe and a GET per header set.
\<close>

definition attempts_trace :: "string \<Rightarrow> headers list \<Rightarrow> (http_method \<times> string \<times> headers) list" where
  "attempts_trace url hs = concat (map (\<lambda>h. [(HEAD, url, h), (GET, url, h)]) hs)"

text \<open>
  The GET of \<open>url\<close> with the header set \<open>h\<close> fails with an HTTP response whose status
  is 401, 403 or 429.
\<close>

definition access_denied :: "env \<Rightarrow> downloader \<Rightarrow> string \<Rightarrow> headers \<Rightarrow> bool" where
  "access_denied e svc url h =
     (case axios_get e url h (maxFileSize svc) of
        Inl (AxiosError (Some (status, statusText)) code msg) \<Rightarrow>
          status = 401 \<or> status = 403 \<or> status = 429
      | _ \<Rightarrow> False)"

text \<open>An MD5 digest in hex: 32 lowercase hexadecimal digits.\<close>

definition hex_digest :: "string \<Rightarrow> bool" where
  "hex_digest s = (length s = 32 \<and> list_all (\<lambda>c. c \<in> set ''0123456789abcdef'') s)"

text \<open>
  The lookup of \<open>url\<close> succeeds and yields no stored analysis: no document, or a
  first document without the \<open>analysis\<close> field.
\<close>

definition cache_miss :: "env \<Rightarrow> world \<Rightarrow> string \<Rightarrow> bool" where
  "cache_miss e w url =
     (case findByUrl e w url of
        Inl err \<Rightarrow> False
      | Inr None \<Rightarrow> True
      | Inr (Some d) \<Rightarrow> doc_analysis d = None)"

text \<open>\<open>saveMedia\<close> throws: the collection is not connected, or the insert is rejected.\<close>

definition store_write_fails :: "env \<Rightarrow> world \<Rightarrow> bool" where
  "store_write_fails e w = (mediaCollection w = None \<or> insert_error e \<noteq> None)"

section \<open>A concrete environment\<close>

text \<open>
  One environment, service and world on which the theorems below are instantiated:
  the HEAD probe times out, the GET is refused with 403 for the first two header sets
  and answered with a PNG for any other.
\<close>

definition example_svc :: downloader where
  "example_svc = \<lparr>maxFileSize = default_maxFileSize, tempDir = ''/tmp/mcp-video-recognition''\<rparr>"

definition forbidden :: js_error where
  "forbidden = AxiosError (Some (403, ''Forbidden'')) ''ERR_BAD_REQUEST''
                 ''Request failed with status code 403''"

definition server_error :: js_error where
  "server_error = AxiosError (Some (500, ''Internal Server Error'')) ''ERR_BAD_RESPONSE''
                    ''Request failed with status code 500''"

definition probe_timeout :: js_error where
  "probe_timeout = AxiosError None ''ECONNABORTED'' ''timeout of 10000ms exceeded''"

definition png_response :: http_response where
  "png_response = \<lparr>resp_headers = [''content-type'' \<mapsto> ''image/png''], resp_data = ''PNG''\<rparr>"

definition chrome :: headers where "chrome = [(''User-Agent'', ''Chrome'')]"
definition firefox :: headers where "firefox = [(''User-Agent'', ''Firefox'')]"
definition bot :: headers where "bot = [(''User-Agent'', ''MCP'')]"
definition spare :: headers where "spare = [(''User-Agent'', ''Spare'')]"

definition posix_basename :: "string \<Rightarrow> string" where
  "posix_basename p =
     rev (takeWhile (\<lambda>c. c \<noteq> CHR ''/'') (dropWhile (\<lambda>c. c = CHR ''/'') (rev p)))"

definition cat_url :: string where "cat_url = ''https://example.com/media/cat.png''"

definition clip_path :: string where "clip_path = ''/data/clip.mp4''"

definition example_env :: env where
  "example_env =
     \<lparr>axios_head = (\<lambda>url hdrs. Inl probe_timeout),
      axios_get = (\<lambda>url hdrs m. if hdrs = chrome \<or> hdrs = firefox then Inl forbidden
                                else Inr png_response),
      write_error = (\<lambda>p. None),
      unlink_error = (\<lambda>p. None),
      find_error = None,
      insert_error = None,
      url_pathname = (\<lambda>u. if u = cat_url then Some ''/media/cat.png''
                            else if u = ''https://example.com/videos/clip.mp4'' then Some ''/videos/clip.mp4''
                            else if u = ''https://example.com/media/cat'' then Some ''/media/cat''
                            else None),
      path_basename = posix_basename,
      path_extname = (\<lambda>p. if p = clip_path then ''.mp4'' else ''.png''),
      mime_extension = (\<lambda>m. if m = ''image/png'' then Some ''png'' else None),
      md5_hex = (\<lambda>u. if u = ''https://example.com/media/cat''
                       then ''4a5b0d882953a05f529c7c76d6780751''
                       else ''d41d8cd98f00b204e9800998ecf8427e''),
      random_hex = ''9a3f00c2'',
      uploadFile = (\<lambda>p. Inr \<lparr>uri = ''files/cat'', file_mimeType = ''image/png''\<rparr>),
      processFile = (\<lambda>f p m. Inr \<lparr>response_text = ''A cat on a sofa.'', response_isError = False\<rparr>),
      now = 0\<rparr>"

text \<open>The same, with a server that answers 500 once the first header set was refused.\<close>

definition failing_env :: env where
  "failing_env =
     example_env\<lparr>axios_get := (\<lambda>url hdrs m. if hdrs = chrome then Inl forbidden
                                             else Inl server_error)\<rparr>"

text \<open>A server that refuses every request with 403.\<close>

definition denying_env :: env where
  "denying_env = example_env\<lparr>axios_get := (\<lambda>url hdrs m. Inl forbidden)\<rparr>"

definition empty_world :: world where
  "empty_world = \<lparr>files = Map.empty, requests = [], mediaCollection = Some [], log_lines = []\<rparr>"

definition cat_download :: download_result where
  "cat_download = \<lparr>filepath = ''/tmp/mcp-video-recognition/cat.png'', filename = ''cat.png'',
                    mimeType = ''image/png'', fileData = ''PNG'', fileSize = 3\<rparr>"

text \<open>A request for the cat picture, and a store that already holds its analysis.\<close>

definition cat_args :: recognition_params where
  "cat_args = \<lparr>arg_filepath = None, arg_url = Some cat_url,
                arg_prompt = Some ''How many cats?'', arg_modelname = Some ''gemini-2.5-pro'',
                saveToDb = True\<rparr>"




text \<open>Environments in which the temp file cannot be deleted, or the insert is rejected.\<close>

definition stuck_env :: env where
  "stuck_env = example_env\<lparr>unlink_error := (\<lambda>p. Some (PlainError ''EPERM: operation not permitted, unlink''))\<rparr>"

definition readonly_env :: env where
  "readonly_env = example_env\<lparr>insert_error := Some (PlainError ''not authorized on video_analysis to execute command insert'')\<rparr>"

text \<open>A request for a local video, and a disk that holds it.\<close>

definition clip_args :: recognition_params where
  "clip_args = \<lparr>arg_filepath = Some clip_path, arg_url = None,
                 arg_prompt = None, arg_modelname = None, saveToDb = True\<rparr>"

definition clip_world :: world where
  "clip_world = empty_world\<lparr>files := [clip_path \<mapsto> ''MP4'']\<rparr>"

definition clip_media :: resolved_media where
  "clip_media = \<lparr>r_filepath = clip_path, r_fileData = Some ''MP4'',
                  r_mimeType = Some ''video/mp4'', r_filename = Some ''clip.mp4'',
                  r_sourceUrl = None\<rparr>"

definition cat_media :: resolved_media where
  "cat_media = \<lparr>r_filepath = filepath cat_download, r_fileData = Some ''PNG'',
                 r_mimeType = Some ''image/png'', r_filename = Some ''cat.png'',
                 r_sourceUrl = Some cat_url\<rparr>"

text \<open>The world after the cat picture was downloaded with the first default header set.\<close>

definition downloaded_world :: "world \<Rightarrow> world" where
  "downloaded_world w =
     w\<lparr>requests := requests w @ [(HEAD, cat_url, hd default_strategies),
                                   (GET, cat_url, hd default_strategies)],
       files := (files w)(filepath cat_download \<mapsto> ''PNG'')\<rparr>"

definition cat_response :: gemini_response where
  "cat_response = \<lparr>response_text = ''A cat on a sofa.'', response_isError = False\<rparr>"

text \<open>
  A server that refuses the first default header set and then answers with a body and
  no Content-Type header.
\<close>

definition bare_response :: http_response where
  "bare_response = \<lparr>resp_headers = Map.empty, resp_data = ''RAW''\<rparr>"

definition bare_env :: env where
  "bare_env =
     example_env\<lparr>axios_get := (\<lambda>url hdrs m. if hdrs = hd default_strategies then Inl forbidden
                                             else Inr bare_response)\<rparr>"

text \<open>The document the image tool stores for the cat picture in an empty collection.\<close>

definition stored_cat :: media_document where
  "stored_cat = \<lparr>doc_id = Some 0, doc_url = cat_url, doc_filename = ''cat.png'',
                  doc_mimeType = ''image/png'', doc_fileData = ''PNG'', doc_fileSize = 3,
                  uploadedAt = 0,
                  doc_analysis = Some \<lparr>prompt = ''How many cats?'', result = ''A cat on a sofa.'',
                                       model = ''gemini-2.5-pro'', analyzedAt = 0\<rparr>\<rparr>"


section \<open>The MIME allow-list\<close>

lemma isWhiteSpace_audio [simp]:
  "\<not> isWhiteSpace CHR ''a''" "\<not> isWhiteSpace CHR ''u''" "\<not> isWhiteSpace CHR ''d''"
  "\<not> isWhiteSpace CHR ''i''" "\<not> isWhiteSpace CHR ''o''" "\<not> isWhiteSpace CHR ''/''"
  by (simp_all add: isWhiteSpace_def)

lemma trim_audio: "trim (''audio/'' @ x) = ''audio/'' @ rev (dropWhile isWhiteSpace (rev x))"
  by (simp add: trim_def dropWhile_append)

lemma toLowerCase_audio: "toLowerCase (''audio/'' @ x) = ''audio/'' @ toLowerCase x"
  by (simp add: toLowerCase_def toLowerChar_def)

lemma split_first_audio:
  "split_first CHR '';'' (''audio/'' @ x) = ''audio/'' @ split_first CHR '';'' x"
  by (simp add: split_first_def)

lemma audio_not_listed: "''audio/'' @ x \<notin> supportedMimeTypes"
  by (simp add: supportedMimeTypes_def)

lemma allow_list_classes:
  "\<forall>t \<in> supportedMimeTypes.
     (startsWith t ''image/'' \<or> startsWith t ''video/'') \<and> \<not> startsWith t ''audio/''"
  by (simp add: supportedMimeTypes_def startsWith_def)

text \<open>
  Claim C4. \<open>isSupported\<close> holds exactly when the MIME type, cut at its first
  \<open>;\<close>, trimmed and lowercased, is on the allow-list. Every entry of the allow-list
  starts with \<open>image/\<close> or \<open>video/\<close> and none with \<open>audio/\<close>, so a MIME type
  that starts with \<open>audio/\<close> (as given, or once normalised) is never supported.
\<close>

theorem isSupported_allow_list:
  "isSupported mt = (toLowerCase (trim (split_first CHR '';'' mt)) \<in> supportedMimeTypes)
   \<and> (\<forall>t \<in> supportedMimeTypes.
         (startsWith t ''image/'' \<or> startsWith t ''video/'') \<and> \<not> startsWith t ''audio/'')
   \<and> (startsWith (toLowerCase (trim (split_first CHR '';'' mt))) ''audio/''
        \<longrightarrow> \<not> isSupported mt)
   \<and> (startsWith mt ''audio/'' \<longrightarrow> \<not> isSupported mt)"
proof (intro conjI impI)
  show eq: "isSupported mt = (toLowerCase (trim (split_first CHR '';'' mt)) \<in> supportedMimeTypes)"
  proof (cases "mt = []")
    case True
    then show ?thesis
      by (simp add: isSupported_def split_first_def trim_def toLowerCase_def supportedMimeTypes_def)
  next
    case False
    then show ?thesis by (simp add: isSupported_def)
  qed
  show "\<forall>t \<in> supportedMimeTypes.
         (startsWith t ''image/'' \<or> startsWith t ''video/'') \<and> \<not> startsWith t ''audio/''"
    by (rule allow_list_classes)
  show "\<not> isSupported mt"
    if "startsWith (toLowerCase (trim (split_first CHR '';'' mt))) ''audio/''"
  proof -
    from that obtain x where "toLowerCase (trim (split_first CHR '';'' mt)) = ''audio/'' @ x"
      by (auto simp: startsWith_def prefix_def)
    then show ?thesis using eq audio_not_listed by simp
  qed
  show "\<not> isSupported mt" if "startsWith mt ''audio/''"
  proof -
    from that obtain x where "mt = ''audio/'' @ x"
      by (auto simp: startsWith_def prefix_def)
    then have "toLowerCase (trim (split_first CHR '';'' mt))
               = ''audio/'' @ toLowerCase (rev (dropWhile isWhiteSpace (rev (split_first CHR '';'' x))))"
      by (simp only: split_first_audio trim_audio toLowerCase_audio)
    then show ?thesis using eq audio_not_listed by simp
  qed
qed

theorem isSupported_allow_list_witness:
  "startsWith ''audio/mpeg; charset=binary'' ''audio/''
   \<and> \<not> isSupported ''audio/mpeg; charset=binary''
   \<and> toLowerCase (trim (split_first CHR '';'' '' Image/PNG ; q=1'')) = ''image/png''
   \<and> isSupported '' Image/PNG ; q=1''"
proof -
  have a: "startsWith ''audio/mpeg; charset=binary'' ''audio/''"
    by (simp add: startsWith_def)
  have n: "toLowerCase (trim (split_first CHR '';'' '' Image/PNG ; q=1'')) = ''image/png''"
    by code_simp
  have p: "''image/png'' \<in> supportedMimeTypes"
    by (simp add: supportedMimeTypes_def)
  from isSupported_allow_list[of "''audio/mpeg; charset=binary''"] a
  have "\<not> isSupported ''audio/mpeg; charset=binary''" by blast
  moreover from isSupported_allow_list[of "'' Image/PNG ; q=1''"] n p
  have "isSupported '' Image/PNG ; q=1''" by simp
  ultimately show ?thesis using a n by blast
qed

section \<open>The retry loop\<close>

lemma attempts_trace_simps [simp]:
  "attempts_trace url [] = []"
  "attempts_trace url (h # hs) = (HEAD, url, h) # (GET, url, h) # attempts_trace url hs"
  "attempts_trace url (xs @ ys) = attempts_trace url xs @ attempts_trace url ys"
  by (simp_all add: attempts_trace_def)

lemma isSoft_iff:
  "isSoft err = (\<exists>status statusText code msg.
      err = AxiosError (Some (status, statusText)) code msg
      \<and> (status = 401 \<or> status = 403 \<or> status = 429))"
  by (auto simp: isSoft_def split: js_error.splits option.splits)

lemma tryStrategy_requests:
  "requests (snd (tryStrategy e svc url h w)) = requests w @ [(HEAD, url, h), (GET, url, h)]"
  by (simp add: tryStrategy_def Let_def writeFileSync_def split: sum.splits option.splits)

lemma tryStrategy_fst_world:
  "fst (tryStrategy e svc url h w) = fst (tryStrategy e svc url h w')"
  by (simp add: tryStrategy_def Let_def writeFileSync_def split: sum.splits option.splits)

lemma tryStrategy_failure:
  "fst (tryStrategy e svc url h w) = Inl err \<Longrightarrow>
   tryStrategy e svc url h w = (Inl err, w\<lparr>requests := requests w @ [(HEAD, url, h), (GET, url, h)]\<rparr>)"
  by (cases "axios_get e url h (maxFileSize svc)")
     (auto simp add: tryStrategy_def Let_def writeFileSync_def split: option.splits if_splits)

lemma tryStrategy_success:
  "fst (tryStrategy e svc url h w) = Inr r \<Longrightarrow>
   tryStrategy e svc url h w =
     (Inr r, w\<lparr>requests := requests w @ [(HEAD, url, h), (GET, url, h)],
              files := (files w)(filepath r \<mapsto> fileData r)\<rparr>)
   \<and> (\<exists>response. axios_get e url h (maxFileSize svc) = Inr response
         \<and> fileData r = resp_data response)"
  by (cases "axios_get e url h (maxFileSize svc)")
     (auto simp add: tryStrategy_def Let_def writeFileSync_def split: option.splits if_splits)

lemma tryStrategy_denied:
  assumes "access_denied e svc url h"
  shows "\<exists>err. axios_get e url h (maxFileSize svc) = Inl err \<and> isSoft err
           \<and> tryStrategy e svc url h w
               = (Inl err, w\<lparr>requests := requests w @ [(HEAD, url, h), (GET, url, h)]\<rparr>)"
  using assms
  by (auto simp add: access_denied_def isSoft_def tryStrategy_def Let_def
           split: sum.splits js_error.splits option.splits prod.splits)

lemma tryStrategy_hard:
  assumes "fst (tryStrategy e svc url h w) = Inl err" "\<not> isSoft err"
  shows "\<not> access_denied e svc url h"
  using assms tryStrategy_denied[of e svc url h w] by auto

lemma downloadLoop_requests_prefix:
  "prefix (requests w) (requests (snd (downloadLoop e svc url hs le w)))"
proof (induction hs arbitrary: le w)
  case Nil
  then show ?case by simp
next
  case (Cons h hs)
  show ?case
  proof (cases "fst (tryStrategy e svc url h w)")
    case (Inl err)
    note t = tryStrategy_failure[OF Inl]
    show ?thesis
    proof (cases "isSoft err")
      case True
      have "prefix (requests w) (requests (w\<lparr>requests := requests w @ [(HEAD, url, h), (GET, url, h)]\<rparr>))"
        by simp
      also have "prefix \<dots> (requests (snd (downloadLoop e svc url hs (Some err)
                    (w\<lparr>requests := requests w @ [(HEAD, url, h), (GET, url, h)]\<rparr>))))"
        by (rule Cons.IH)
      finally show ?thesis using t True by simp
    next
      case False
      then show ?thesis using t by simp
    qed
  next
    case (Inr r)
    then show ?thesis using tryStrategy_success[OF Inr] by simp
  qed
qed

lemma downloadLoop_requests_mono:
  "x \<in> set (requests w) \<Longrightarrow> x \<in> set (requests (snd (downloadLoop e svc url hs le w)))"
  using downloadLoop_requests_prefix[of w e svc url hs le] set_mono_prefix by blast

lemma downloadLoop_denied_prefix:
  assumes "\<forall>h \<in> set pre. access_denied e svc url h"
  shows "\<exists>le'. downloadLoop e svc url (pre @ rest) le w
               = downloadLoop e svc url rest le' (w\<lparr>requests := requests w @ attempts_trace url pre\<rparr>)
           \<and> (pre = [] \<longrightarrow> le' = le)
           \<and> (pre \<noteq> [] \<longrightarrow> (\<exists>err. le' = Some err \<and> axios_get e url (last pre) (maxFileSize svc) = Inl err))"
  using assms
proof (induction pre arbitrary: le w)
  case Nil
  then show ?case by simp
next
  case (Cons h pre)
  from Cons.prems have den: "access_denied e svc url h" and rest: "\<forall>h \<in> set pre. access_denied e svc url h"
    by simp_all
  from tryStrategy_denied[OF den, of w] obtain err where
    g: "axios_get e url h (maxFileSize svc) = Inl err" and s: "isSoft err"
    and t: "tryStrategy e svc url h w = (Inl err, w\<lparr>requests := requests w @ [(HEAD, url, h), (GET, url, h)]\<rparr>)"
    by blast
  let ?w1 = "w\<lparr>requests := requests w @ [(HEAD, url, h), (GET, url, h)]\<rparr>"
  have step: "downloadLoop e svc url ((h # pre) @ rest) le w = downloadLoop e svc url (pre @ rest) (Some err) ?w1"
    using t s by simp
  from Cons.IH[OF rest, of "Some err" ?w1] obtain le' where
    ih: "downloadLoop e svc url (pre @ rest) (Some err) ?w1
           = downloadLoop e svc url rest le' (?w1\<lparr>requests := requests ?w1 @ attempts_trace url pre\<rparr>)"
    and e1: "pre = [] \<longrightarrow> le' = Some err"
    and e2: "pre \<noteq> [] \<longrightarrow> (\<exists>err. le' = Some err \<and> axios_get e url (last pre) (maxFileSize svc) = Inl err)"
    by blast
  show ?case
  proof (intro exI[of _ le'] conjI)
    show "downloadLoop e svc url ((h # pre) @ rest) le w
          = downloadLoop e svc url rest le' (w\<lparr>requests := requests w @ attempts_trace url (h # pre)\<rparr>)"
      using step ih by simp
    show "h # pre = [] \<longrightarrow> le' = le" by simp
    show "h # pre \<noteq> [] \<longrightarrow> (\<exists>err. le' = Some err \<and> axios_get e url (last (h # pre)) (maxFileSize svc) = Inl err)"
      using e1 e2 g by (cases "pre = []") auto
  qed
qed


text \<open>
  Claim C2. When the GET is refused with 401, 403 or 429 for every header set up to
  and including strategy \<open>k\<close> (\<open>hk\<close>), the loop attempts strategy \<open>k + 1\<close>
  (\<open>hk1\<close>). If that attempt succeeds with \<open>r\<close>, the loop returns \<open>r\<close>, whose
  bytes are the body of the GET sent with \<open>hk1\<close>; the requests issued are exactly
  the probes and GETs of the strategies up to \<open>k + 1\<close>, none for the strategies in
  \<open>rest\<close>, and the only file written is the one of \<open>r\<close>.
\<close>

theorem strategy_fallback:
  assumes "\<forall>h \<in> set pre. access_denied e svc url h"
      and "access_denied e svc url hk"
  shows "(GET, url, hk1) \<in> set (requests (snd (downloadLoop e svc url (pre @ hk # hk1 # rest) le w)))
         \<and> (\<forall>r. fst (tryStrategy e svc url hk1 w) = Inr r \<longrightarrow>
               downloadLoop e svc url (pre @ hk # hk1 # rest) le w
                 = (Inr r, w\<lparr>requests := requests w @ attempts_trace url (pre @ [hk, hk1]),
                             files := (files w)(filepath r \<mapsto> fileData r)\<rparr>)
               \<and> (\<exists>response. axios_get e url hk1 (maxFileSize svc) = Inr response
                     \<and> fileData r = resp_data response))"
proof -
  have "\<forall>h \<in> set (pre @ [hk]). access_denied e svc url h"
    using assms by simp
  from downloadLoop_denied_prefix[OF this, of "hk1 # rest" le w] obtain le' where
    skip: "downloadLoop e svc url (pre @ hk # hk1 # rest) le w
             = downloadLoop e svc url (hk1 # rest) le'
                 (w\<lparr>requests := requests w @ attempts_trace url (pre @ [hk])\<rparr>)"
    by auto
  let ?w1 = "w\<lparr>requests := requests w @ attempts_trace url (pre @ [hk])\<rparr>"
  have attempted: "(GET, url, hk1) \<in> set (requests (snd (downloadLoop e svc url (hk1 # rest) le' ?w1)))"
  proof (cases "fst (tryStrategy e svc url hk1 ?w1)")
    case (Inl err)
    note t = tryStrategy_failure[OF Inl]
    show ?thesis
    proof (cases "isSoft err")
      case True
      have "(GET, url, hk1) \<in> set (requests (snd (downloadLoop e svc url rest (Some err)
              (?w1\<lparr>requests := requests ?w1 @ [(HEAD, url, hk1), (GET, url, hk1)]\<rparr>))))"
        by (rule downloadLoop_requests_mono) simp
      then show ?thesis using t True by simp
    next
      case False
      then show ?thesis using t by simp
    qed
  next
    case (Inr r)
    then show ?thesis using tryStrategy_success[OF Inr] by simp
  qed
  show ?thesis
  proof (intro conjI allI impI)
    show "(GET, url, hk1) \<in> set (requests (snd (downloadLoop e svc url (pre @ hk # hk1 # rest) le w)))"
      using attempted skip by simp
  next
    fix r assume ok: "fst (tryStrategy e svc url hk1 w) = Inr r"
    then have ok1: "fst (tryStrategy e svc url hk1 ?w1) = Inr r"
      using tryStrategy_fst_world[of e svc url hk1 ?w1 w] by simp
    from tryStrategy_success[OF ok1]
    show "downloadLoop e svc url (pre @ hk # hk1 # rest) le w
            = (Inr r, w\<lparr>requests := requests w @ attempts_trace url (pre @ [hk, hk1]),
                        files := (files w)(filepath r \<mapsto> fileData r)\<rparr>)"
      using skip by simp
    from tryStrategy_success[OF ok]
    show "\<exists>response. axios_get e url hk1 (maxFileSize svc) = Inr response
             \<and> fileData r = resp_data response"
      by blast
  qed
qed

text \<open>
  Claim C3. Once the strategies before \<open>h\<close> were refused with 401, 403 or 429: a
  failure of the attempt with \<open>h\<close> that is not an HTTP response with one of these
  three statuses (a timeout, another status such as 500, an unsupported type, an
  oversize body, a failed write) is thrown at once, and no request is issued for the
  strategies in \<open>rest\<close>; and when \<open>h\<close> is the last strategy and is refused as
  well, the loop ends by throwing the error of that last refusal. In particular, when
  every header set that \<open>getStrategiesForUrl\<close> gives for the URL is refused,
  \<open>downloadWithRetry\<close> throws the error of the last one, after one probe and one
  GET per header set.
\<close>

theorem hard_failure_short_circuit:
  assumes "\<forall>h \<in> set pre. access_denied e svc url h"
  shows "(\<forall>err. fst (tryStrategy e svc url h w) = Inl err
            \<and> \<not> (\<exists>status statusText code msg.
                    err = AxiosError (Some (status, statusText)) code msg
                    \<and> (status = 401 \<or> status = 403 \<or> status = 429))
          \<longrightarrow> downloadLoop e svc url (pre @ h # rest) le w
                = (Inl err, w\<lparr>requests := requests w @ attempts_trace url (pre @ [h])\<rparr>))
       \<and> (access_denied e svc url h
          \<longrightarrow> (\<exists>err. axios_get e url h (maxFileSize svc) = Inl err
                \<and> downloadLoop e svc url (pre @ [h]) le w
                    = (Inl err, w\<lparr>requests := requests w @ attempts_trace url (pre @ [h])\<rparr>)))
       \<and> ((\<forall>x \<in> set (getStrategiesForUrl url). access_denied e svc url x)
          \<longrightarrow> (\<exists>err. axios_get e url (last (getStrategiesForUrl url)) (maxFileSize svc) = Inl err
                \<and> downloadWithRetry e svc url w
                    = (Inl err, w\<lparr>requests := requests w
                                   @ attempts_trace url (getStrategiesForUrl url)\<rparr>)))"
proof (intro conjI allI impI)
  fix err
  assume a: "fst (tryStrategy e svc url h w) = Inl err
            \<and> \<not> (\<exists>status statusText code msg.
                    err = AxiosError (Some (status, statusText)) code msg
                    \<and> (status = 401 \<or> status = 403 \<or> status = 429))"
  then have hard: "\<not> isSoft err" by (simp add: isSoft_iff)
  from downloadLoop_denied_prefix[OF assms, of "h # rest" le w] obtain le' where
    skip: "downloadLoop e svc url (pre @ h # rest) le w
             = downloadLoop e svc url (h # rest) le'
                 (w\<lparr>requests := requests w @ attempts_trace url pre\<rparr>)"
    by auto
  let ?w1 = "w\<lparr>requests := requests w @ attempts_trace url pre\<rparr>"
  from a have "fst (tryStrategy e svc url h ?w1) = Inl err"
    using tryStrategy_fst_world[of e svc url h ?w1 w] by simp
  from tryStrategy_failure[OF this] hard skip
  show "downloadLoop e svc url (pre @ h # rest) le w
          = (Inl err, w\<lparr>requests := requests w @ attempts_trace url (pre @ [h])\<rparr>)"
    by simp
next
  assume den: "access_denied e svc url h"
  then have "\<forall>x \<in> set (pre @ [h]). access_denied e svc url x"
    using assms by simp
  from downloadLoop_denied_prefix[OF this, of "[]" le w]
  show "\<exists>err. axios_get e url h (maxFileSize svc) = Inl err
          \<and> downloadLoop e svc url (pre @ [h]) le w
              = (Inl err, w\<lparr>requests := requests w @ attempts_trace url (pre @ [h])\<rparr>)"
    by auto
next
  assume all: "\<forall>x \<in> set (getStrategiesForUrl url). access_denied e svc url x"
  have ne: "getStrategiesForUrl url \<noteq> []"
    by (simp add: getStrategiesForUrl_def facebook_strategies_def instagram_strategies_def
          default_strategies_def)
  from downloadLoop_denied_prefix[OF all, of "[]" None w] ne
  show "\<exists>err. axios_get e url (last (getStrategiesForUrl url)) (maxFileSize svc) = Inl err
          \<and> downloadWithRetry e svc url w
              = (Inl err, w\<lparr>requests := requests w
                             @ attempts_trace url (getStrategiesForUrl url)\<rparr>)"
    by (auto simp: downloadWithRetry_def)
qed

lemma isSupported_png: "isSupported ''image/png''"
  by (simp add: isSupported_def split_first_def trim_def isWhiteSpace_def toLowerCase_def
        toLowerChar_def supportedMimeTypes_def)

lemma example_try_bot:
  "fst (tryStrategy example_env example_svc cat_url bot w) = Inr cat_download"
  by (simp add: Let_def tryStrategy_def example_env_def example_svc_def png_response_def bot_def chrome_def
        firefox_def truthy_def or_default_def isSupported_png default_maxFileSize_def
        generateFilename_def cat_url_def posix_basename_def path_join_def writeFileSync_def
        cat_download_def)

lemma example_denied:
  "access_denied example_env example_svc cat_url chrome"
  "access_denied example_env example_svc cat_url firefox"
  by (simp_all add: access_denied_def example_env_def forbidden_def chrome_def firefox_def)

theorem strategy_fallback_witness:
  "access_denied example_env example_svc cat_url chrome
   \<and> access_denied example_env example_svc cat_url firefox
   \<and> fst (tryStrategy example_env example_svc cat_url bot empty_world) = Inr cat_download
   \<and> downloadLoop example_env example_svc cat_url [chrome, firefox, bot, spare] None empty_world
       = (Inr cat_download,
          empty_world\<lparr>requests := [(HEAD, cat_url, chrome), (GET, cat_url, chrome),
                                   (HEAD, cat_url, firefox), (GET, cat_url, firefox),
                                   (HEAD, cat_url, bot), (GET, cat_url, bot)],
                      files := [''/tmp/mcp-video-recognition/cat.png'' \<mapsto> ''PNG'']\<rparr>)"
  using strategy_fallback[of "[chrome]" example_env example_svc cat_url firefox bot "[spare]" None empty_world]
        example_denied example_try_bot[of empty_world]
  by (simp add: empty_world_def cat_download_def)

lemma failing_env_firefox:
  "fst (tryStrategy failing_env example_svc cat_url firefox w) = Inl server_error"
  by (simp add: Let_def tryStrategy_def failing_env_def example_env_def firefox_def chrome_def)

lemma failing_env_denied: "access_denied failing_env example_svc cat_url chrome"
  by (simp add: access_denied_def failing_env_def example_env_def forbidden_def)

theorem hard_failure_short_circuit_witness:
  "access_denied failing_env example_svc cat_url chrome
   \<and> fst (tryStrategy failing_env example_svc cat_url firefox empty_world) = Inl server_error
   \<and> downloadLoop failing_env example_svc cat_url [chrome, firefox, bot] None empty_world
       = (Inl server_error,
          empty_world\<lparr>requests := [(HEAD, cat_url, chrome), (GET, cat_url, chrome),
                                   (HEAD, cat_url, firefox), (GET, cat_url, firefox)]\<rparr>)
   \<and> access_denied example_env example_svc cat_url chrome
   \<and> access_denied example_env example_svc cat_url firefox
   \<and> downloadLoop example_env example_svc cat_url [chrome, firefox] None empty_world
       = (Inl forbidden,
          empty_world\<lparr>requests := [(HEAD, cat_url, chrome), (GET, cat_url, chrome),
                                   (HEAD, cat_url, firefox), (GET, cat_url, firefox)]\<rparr>)
   \<and> list_all (access_denied denying_env example_svc cat_url) (getStrategiesForUrl cat_url)
   \<and> downloadWithRetry denying_env example_svc cat_url empty_world
       = (Inl forbidden,
          empty_world\<lparr>requests := attempts_trace cat_url (getStrategiesForUrl cat_url)\<rparr>)"
proof -
  have hard: "\<not> (\<exists>status statusText code msg.
                 server_error = AxiosError (Some (status, statusText)) code msg
                 \<and> (status = 401 \<or> status = 403 \<or> status = 429))"
    by (simp add: server_error_def)
  have one: "\<forall>h \<in> set [chrome]. access_denied failing_env example_svc cat_url h"
    using failing_env_denied by simp
  have two: "\<forall>h \<in> set [chrome]. access_denied example_env example_svc cat_url h"
    using example_denied by simp
  have get: "axios_get example_env cat_url firefox (maxFileSize example_svc) = Inl forbidden"
    by (simp add: example_env_def)
  from hard_failure_short_circuit[OF one, of firefox empty_world "[bot]" None]
       failing_env_firefox[of empty_world] hard
  have a: "downloadLoop failing_env example_svc cat_url [chrome, firefox, bot] None empty_world
           = (Inl server_error,
              empty_world\<lparr>requests := requests empty_world
                                       @ attempts_trace cat_url ([chrome] @ [firefox])\<rparr>)"
    by simp
  from hard_failure_short_circuit[OF two, of firefox empty_world "[]" None] example_denied get
  have b: "downloadLoop example_env example_svc cat_url [chrome, firefox] None empty_world
           = (Inl forbidden,
              empty_world\<lparr>requests := requests empty_world
                                       @ attempts_trace cat_url ([chrome] @ [firefox])\<rparr>)"
    by simp
  have den: "access_denied denying_env example_svc cat_url x" for x
    by (simp add: access_denied_def denying_env_def forbidden_def)
  then have three: "\<forall>x \<in> set (getStrategiesForUrl cat_url). access_denied denying_env example_svc cat_url x"
    by simp
  have get3: "axios_get denying_env cat_url x (maxFileSize example_svc) = Inl forbidden" for x
    by (simp add: denying_env_def)
  from hard_failure_short_circuit[of "[chrome]" denying_env example_svc cat_url firefox
         empty_world "[]" None] den three get3
  have c: "downloadWithRetry denying_env example_svc cat_url empty_world
           = (Inl forbidden,
              empty_world\<lparr>requests := requests empty_world
                                       @ attempts_trace cat_url (getStrategiesForUrl cat_url)\<rparr>)"
    by simp
  have l: "list_all (access_denied denying_env example_svc cat_url) (getStrategiesForUrl cat_url)"
    using den by (simp add: list_all_iff)
  show ?thesis
    using a b c l failing_env_denied failing_env_firefox[of empty_world] example_denied
    by (simp add: empty_world_def)
qed

section \<open>File names\<close>

text \<open>
  Claim C9. For a URL that parses, with path \<open>pathname\<close>: when the basename of the
  path contains a dot, the file name is that basename, whatever the MIME type (so
  \<open>/videos/clip.mp4\<close> gives \<open>clip.mp4\<close>); when it contains none and the MIME type
  is \<open>image/png\<close>, the file name is \<open>media_\<close>, the first 8 characters of the MD5
  hex digest of the URL, and \<open>.png\<close>; and the file name does not depend on the
  random source, so the same URL and MIME type give the same name on every call.
\<close>

theorem generateFilename_derivation:
  assumes "url_pathname e url = Some pathname"
  shows "(CHR ''.'' \<in> set (path_basename e pathname)
            \<longrightarrow> generateFilename e url mt = path_basename e pathname)
       \<and> (CHR ''.'' \<notin> set (path_basename e pathname) \<and> mime_extension e ''image/png'' = Some ''png''
            \<longrightarrow> generateFilename e url ''image/png'' = ''media_'' @ take 8 (md5_hex e url) @ ''.png''
               \<and> (hex_digest (md5_hex e url)
                    \<longrightarrow> length (take 8 (md5_hex e url)) = 8
                        \<and> list_all (\<lambda>c. c \<in> set ''0123456789abcdef'') (take 8 (md5_hex e url))))
       \<and> (\<forall>rnd. generateFilename (e\<lparr>random_hex := rnd\<rparr>) url mt = generateFilename e url mt)"
proof (intro conjI impI allI)
  assume "CHR ''.'' \<in> set (path_basename e pathname)"
  then show "generateFilename e url mt = path_basename e pathname"
    using assms by (auto simp: generateFilename_def Let_def)
next
  assume h: "CHR ''.'' \<notin> set (path_basename e pathname) \<and> mime_extension e ''image/png'' = Some ''png''"
  then show "generateFilename e url ''image/png'' = ''media_'' @ take 8 (md5_hex e url) @ ''.png''"
    using assms by (simp add: generateFilename_def Let_def)
next
  assume "hex_digest (md5_hex e url)"
  then show "length (take 8 (md5_hex e url)) = 8"
    by (simp add: hex_digest_def)
next
  assume "hex_digest (md5_hex e url)"
  then have "list_all (\<lambda>c. c \<in> set ''0123456789abcdef'') (md5_hex e url)"
    by (simp add: hex_digest_def)
  then show "list_all (\<lambda>c. c \<in> set ''0123456789abcdef'') (take 8 (md5_hex e url))"
    unfolding list_all_iff using in_set_takeD by fast
next
  fix rnd
  show "generateFilename (e\<lparr>random_hex := rnd\<rparr>) url mt = generateFilename e url mt"
    using assms by (simp add: generateFilename_def Let_def)
qed

theorem generateFilename_derivation_witness:
  "url_pathname example_env ''https://example.com/videos/clip.mp4'' = Some ''/videos/clip.mp4''
   \<and> path_basename example_env ''/videos/clip.mp4'' = ''clip.mp4''
   \<and> generateFilename example_env ''https://example.com/videos/clip.mp4'' ''video/mp4'' = ''clip.mp4''
   \<and> url_pathname example_env ''https://example.com/media/cat'' = Some ''/media/cat''
   \<and> path_basename example_env ''/media/cat'' = ''cat''
   \<and> hex_digest (md5_hex example_env ''https://example.com/media/cat'')
   \<and> generateFilename example_env ''https://example.com/media/cat'' ''image/png'' = ''media_4a5b0d88.png''
   \<and> generateFilename (example_env\<lparr>random_hex := ''00000000''\<rparr>) ''https://example.com/media/cat'' ''image/png''
       = ''media_4a5b0d88.png''"
proof -
  have p1: "url_pathname example_env ''https://example.com/videos/clip.mp4'' = Some ''/videos/clip.mp4''"
    by (simp add: example_env_def cat_url_def)
  have b1: "path_basename example_env ''/videos/clip.mp4'' = ''clip.mp4''"
    by (simp add: example_env_def posix_basename_def)
  have p2: "url_pathname example_env ''https://example.com/media/cat'' = Some ''/media/cat''"
    by (simp add: example_env_def cat_url_def)
  have b2: "path_basename example_env ''/media/cat'' = ''cat''"
    by (simp add: example_env_def posix_basename_def)
  have m: "mime_extension example_env ''image/png'' = Some ''png''"
    by (simp add: example_env_def)
  have d: "md5_hex example_env ''https://example.com/media/cat'' = ''4a5b0d882953a05f529c7c76d6780751''"
    by (simp add: example_env_def)
  have hd: "hex_digest (md5_hex example_env ''https://example.com/media/cat'')"
    by (simp add: d hex_digest_def)
  from generateFilename_derivation[OF p1, of "''video/mp4''"] b1
  have c1: "generateFilename example_env ''https://example.com/videos/clip.mp4'' ''video/mp4'' = ''clip.mp4''"
    by simp
  from generateFilename_derivation[OF p2, of "''image/png''"] b2 m d
  have c2: "generateFilename example_env ''https://example.com/media/cat'' ''image/png'' = ''media_4a5b0d88.png''"
    and c3: "generateFilename (example_env\<lparr>random_hex := ''00000000''\<rparr>) ''https://example.com/media/cat'' ''image/png''
             = ''media_4a5b0d88.png''"
    by simp_all
  show ?thesis using p1 b1 c1 p2 b2 hd c2 c3 by blast
qed

section \<open>Frame lemmas for the cleanup, the download and the store\<close>

lemma cleanupTempFile_absent:
  "\<not> existsSync w p \<Longrightarrow> cleanupTempFile e p w = Inr w"
  by (simp add: cleanupTempFile_def)

lemma cleanupTempFile_failed:
  "existsSync w p \<Longrightarrow> unlink_error e p = Some err \<Longrightarrow>
   cleanupTempFile e p w
     = Inr (w\<lparr>log_lines := log_lines w @ [(LogError, ''Error cleaning up temp file: '' @ p)]\<rparr>)"
  by (simp add: cleanupTempFile_def unlinkSync_def)

lemma cleanupTempFile_deleted:
  "existsSync w p \<Longrightarrow> unlink_error e p = None \<Longrightarrow>
   cleanupTempFile e p w
     = Inr (w\<lparr>files := (files w)(p := None),
              log_lines := log_lines w @ [(LogInfo, ''Cleaned up temp file: '' @ p)]\<rparr>)"
  by (simp add: cleanupTempFile_def unlinkSync_def)

lemma cleanupTempFile_total: "\<exists>w'. cleanupTempFile e p w = Inr w'"
  by (cases "existsSync w p"; cases "unlink_error e p")
     (simp_all add: cleanupTempFile_absent cleanupTempFile_failed cleanupTempFile_deleted)

lemma cleanupTempFile_frame:
  "cleanupTempFile e p w = Inr w' \<Longrightarrow>
   requests w' = requests w \<and> mediaCollection w' = mediaCollection w
   \<and> (\<forall>q. q \<noteq> p \<longrightarrow> files w' q = files w q)"
  by (cases "existsSync w p"; cases "unlink_error e p")
     (auto simp add: cleanupTempFile_absent cleanupTempFile_failed cleanupTempFile_deleted)

lemma cleanupTempFile_not_Inl [simp]: "cleanupTempFile e p w \<noteq> Inl err"
  using cleanupTempFile_total[of e p w] by auto

lemma cleanup_finally_fst: "fst (cleanup_finally e tmp (r, w)) = r"
  by (auto simp: cleanup_finally_def split: option.splits sum.splits)


lemma cleanup_finally_frame:
  "requests (snd (cleanup_finally e tmp (r, w))) = requests w
   \<and> mediaCollection (snd (cleanup_finally e tmp (r, w))) = mediaCollection w"
  using cleanupTempFile_frame[of e _ w]
  by (auto simp: cleanup_finally_def split: option.splits sum.splits)


lemma tryStrategy_filepath:
  "fst (tryStrategy e svc url h w) = Inr r \<Longrightarrow> filepath r \<noteq> []"
  by (cases "axios_get e url h (maxFileSize svc)")
     (auto simp add: tryStrategy_def Let_def writeFileSync_def path_join_def split: option.splits if_splits)

lemma downloadLoop_world:
  "downloadLoop e svc url hs le w = (out, w') \<Longrightarrow>
   mediaCollection w' = mediaCollection w \<and> log_lines w' = log_lines w
   \<and> (case out of
         Inl err \<Rightarrow> files w' = files w
       | Inr r \<Rightarrow> files w' = (files w)(filepath r \<mapsto> fileData r) \<and> filepath r \<noteq> [])"
proof (induction hs arbitrary: le w)
  case Nil
  then show ?case by auto
next
  case (Cons h hs)
  show ?case
  proof (cases "fst (tryStrategy e svc url h w)")
    case (Inl err)
    note t = tryStrategy_failure[OF Inl]
    show ?thesis
    proof (cases "isSoft err")
      case True
      with t Cons.prems have
        "downloadLoop e svc url hs (Some err)
           (w\<lparr>requests := requests w @ [(HEAD, url, h), (GET, url, h)]\<rparr>) = (out, w')"
        by simp
      from Cons.IH[OF this] show ?thesis by (cases out) simp_all
    next
      case False
      with t Cons.prems show ?thesis by auto
    qed
  next
    case (Inr r)
    from tryStrategy_success[OF Inr] tryStrategy_filepath[OF Inr] Cons.prems
    show ?thesis by auto
  qed
qed

lemma downloadMedia_world:
  "downloadMedia e svc url w = (out, w') \<Longrightarrow>
   mediaCollection w' = mediaCollection w \<and> log_lines w' = log_lines w
   \<and> (case out of
         Inl err \<Rightarrow> files w' = files w
       | Inr r \<Rightarrow> files w' = (files w)(filepath r \<mapsto> fileData r) \<and> filepath r \<noteq> [])"
proof -
  assume a: "downloadMedia e svc url w = (out, w')"
  obtain o1 w1 where l: "downloadLoop e svc url (getStrategiesForUrl url) None w = (o1, w1)"
    by (cases "downloadLoop e svc url (getStrategiesForUrl url) None w")
  from downloadLoop_world[OF l] a l show ?thesis
    by (cases o1) (auto simp: downloadMedia_def downloadWithRetry_def)
qed





lemma cleanupTempFile_log_mono:
  "cleanupTempFile e p w = Inr w' \<Longrightarrow> x \<in> set (log_lines w) \<Longrightarrow> x \<in> set (log_lines w')"
  by (cases "existsSync w p"; cases "unlink_error e p")
     (auto simp add: cleanupTempFile_absent cleanupTempFile_failed cleanupTempFile_deleted)

lemma cleanup_finally_log_mono:
  "x \<in> set (log_lines w) \<Longrightarrow> x \<in> set (log_lines (snd (cleanup_finally e tmp (r, w))))"
  by (auto simp: cleanup_finally_def split: option.splits sum.splits dest: cleanupTempFile_log_mono)

section \<open>The concrete environment at work\<close>

lemma cat_strategies: "getStrategiesForUrl cat_url = default_strategies"
  by (simp add: getStrategiesForUrl_def cat_url_def)

lemma example_first_attempt:
  assumes "axios_get e = axios_get example_env" "axios_head e = axios_head example_env"
    "write_error e = write_error example_env" "url_pathname e = url_pathname example_env"
    "path_basename e = path_basename example_env"
  shows "tryStrategy e example_svc cat_url (hd default_strategies) w
           = (Inr cat_download, downloaded_world w)"
  using assms
  by (simp add: Let_def tryStrategy_def example_env_def example_svc_def png_response_def
        chrome_def firefox_def default_strategies_def truthy_def or_default_def isSupported_png
        default_maxFileSize_def generateFilename_def cat_url_def posix_basename_def
        path_join_def writeFileSync_def cat_download_def downloaded_world_def)

lemma example_download:
  assumes "axios_get e = axios_get example_env" "axios_head e = axios_head example_env"
    "write_error e = write_error example_env" "url_pathname e = url_pathname example_env"
    "path_basename e = path_basename example_env"
  shows "downloadMedia e example_svc cat_url w = (Inr cat_download, downloaded_world w)"
proof -
  have "default_strategies = hd default_strategies # tl default_strategies"
    by (simp add: default_strategies_def)
  then have "downloadLoop e example_svc cat_url default_strategies None w
        = downloadLoop e example_svc cat_url (hd default_strategies # tl default_strategies) None w"
    by simp
  also have "\<dots> = (Inr cat_download, downloaded_world w)"
    using example_first_attempt[OF assms, of w] by simp
  finally show ?thesis
    by (simp add: downloadMedia_def downloadWithRetry_def cat_strategies)
qed

lemma readonly_env_same:
  "axios_get readonly_env = axios_get example_env" "axios_head readonly_env = axios_head example_env"
  "write_error readonly_env = write_error example_env" "url_pathname readonly_env = url_pathname example_env"
  "path_basename readonly_env = path_basename example_env"
  by (simp_all add: readonly_env_def)

lemma stuck_env_same:
  "axios_get stuck_env = axios_get example_env" "axios_head stuck_env = axios_head example_env"
  "write_error stuck_env = write_error example_env" "url_pathname stuck_env = url_pathname example_env"
  "path_basename stuck_env = path_basename example_env"
  by (simp_all add: stuck_env_def)

lemma example_cache_miss:
  "find_error e = None \<Longrightarrow> findByUrl e empty_world u = Inr None"
  by (simp add: findByUrl_def empty_world_def)

lemma cat_image_resolve:
  assumes "axios_get e = axios_get example_env" "axios_head e = axios_head example_env"
    "write_error e = write_error example_env" "url_pathname e = url_pathname example_env"
    "path_basename e = path_basename example_env" "find_error e = None"
    "arg_url args = Some cat_url"
  shows "image_resolve e example_svc args empty_world
          = (Inr (Resolved cat_media), Some (filepath cat_download), downloaded_world empty_world)"
  using example_download[OF assms(1-5), of empty_world] example_cache_miss[OF assms(6), of cat_url]
        assms(7)
  by (simp add: image_resolve_def given_def truthy_def cat_url_def startsWith_def
        cat_download_def cat_media_def)

lemma clip_video_resolve:
  assumes "path_extname e = path_extname example_env" "path_basename e = path_basename example_env"
  shows "video_resolve e example_svc clip_args clip_world = (Inr (Resolved clip_media), None, clip_world)"
  using assms
  by (simp add: Let_def video_resolve_def clip_args_def given_def truthy_def clip_path_def existsSync_def
        clip_world_def example_env_def toLowerCase_def toLowerChar_def posix_basename_def
        clip_media_def)






lemma default_strategies_split:
  "default_strategies = [hd default_strategies] @ (default_strategies ! 1) # [default_strategies ! 2]"
  by (simp add: default_strategies_def)

lemma bare_env_facts:
  "access_denied bare_env example_svc cat_url (hd default_strategies)"
  "axios_get bare_env cat_url (default_strategies ! 1) (maxFileSize example_svc) = Inr bare_response"
  "\<not> truthy (resp_headers bare_response ''content-type'')"
  "axios_head bare_env cat_url (default_strategies ! 1) = Inl probe_timeout"
  "length (resp_data bare_response) \<le> maxFileSize example_svc"
  "generateFilename bare_env cat_url ''application/octet-stream'' = ''cat.png''"
  "write_error bare_env p = None"
  by (simp_all add: access_denied_def bare_env_def example_env_def forbidden_def
        default_strategies_def bare_response_def truthy_def example_svc_def
        default_maxFileSize_def generateFilename_def cat_url_def posix_basename_def)

lemma clip_video_unsaved:
  "video_resolve example_env example_svc (clip_args\<lparr>saveToDb := False\<rparr>) clip_world
     = (Inr (Resolved \<lparr>r_filepath = clip_path, r_fileData = None, r_mimeType = None,
                        r_filename = None, r_sourceUrl = None\<rparr>), None, clip_world)"
  by (simp add: Let_def video_resolve_def clip_args_def given_def truthy_def clip_path_def
        existsSync_def clip_world_def example_env_def toLowerCase_def toLowerChar_def)

lemma clip_video_answer:
  "fst (video_recognition example_env example_svc (clip_args\<lparr>saveToDb := False\<rparr>) clip_world)
     = Inr \<lparr>content_text = ''A cat on a sofa.'', is_error = False\<rparr>"
proof -
  have "video_analyse example_env (clip_args\<lparr>saveToDb := False\<rparr>) med clip_world
          = (Inr \<lparr>content_text = ''A cat on a sofa.'', is_error = False\<rparr>, clip_world)" for med
    by (simp add: video_analyse_def Let_def example_env_def)
  then show ?thesis
    by (simp add: video_recognition_def clip_video_unsaved cleanup_finally_fst)
qed

section \<open>The cache short-circuit\<close>








section \<open>Persistence failures\<close>

lemma saveMedia_throws_iff:
  "(\<exists>err. saveMedia e u f m b an w = Inl err) = store_write_fails e w"
  by (auto simp: saveMedia_def store_write_fails_def Let_def split: option.splits)

lemma saveMedia_not_Inr:
  "store_write_fails e w \<Longrightarrow> saveMedia e u f m b an w \<noteq> Inr x"
  by (auto simp: saveMedia_def store_write_fails_def Let_def split: option.splits)

lemma save_step_failed:
  "store_write_fails e w \<Longrightarrow>
   save_step e med an w = w\<lparr>log_lines := log_lines w @ [(LogError, ''Failed to save to MongoDB'')]\<rparr>"
  by (auto simp: save_step_def saveMedia_not_Inr split: option.splits sum.splits prod.splits)

lemma image_resolve_store:
  "image_resolve e svc args w = (out, tmp, w1) \<Longrightarrow> mediaCollection w1 = mediaCollection w"
  by (auto simp: image_resolve_def Let_def split: option.splits sum.splits prod.splits if_splits
           dest: downloadMedia_world)

lemma video_resolve_store:
  "video_resolve e svc args w = (out, tmp, w1) \<Longrightarrow> mediaCollection w1 = mediaCollection w"
  by (auto simp: video_resolve_def Let_def split: option.splits sum.splits prod.splits if_splits
           dest: downloadMedia_world)

text \<open>
  Claim C6. Whenever a tool has resolved its input, the upload succeeds and
  \<open>processFile\<close> returns a text without the error flag, the tool returns that text
  with no error flag, whatever the store does. \<open>saveMedia\<close> throws exactly when
  the collection is not connected or the insert is rejected; in that case the tool
  leaves the collection as it was and hands the line \<open>Failed to save to MongoDB\<close> to
  its logger (the video tool when \<open>saveToDb\<close> is set: otherwise it does not call
  \<open>saveMedia\<close>). Stated for the image tool and for the video tool.
\<close>

theorem persistence_failure_isolation:
  "(image_resolve e svc args w = (Inr (Resolved med), tmp, w1)
      \<and> uploadFile e (r_filepath med) = Inr file
      \<and> processFile e file (or_default (arg_prompt args) ''Describe this image'')
            (or_default (arg_modelname args) ''gemini-2.5-flash'') = Inr res
      \<and> \<not> response_isError res
    \<longrightarrow> fst (image_recognition e svc args w)
          = Inr \<lparr>content_text = response_text res, is_error = False\<rparr>
        \<and> (store_write_fails e w
             \<longrightarrow> mediaCollection (snd (image_recognition e svc args w)) = mediaCollection w
                 \<and> (LogError, ''Failed to save to MongoDB'')
                       \<in> set (log_lines (snd (image_recognition e svc args w)))))
   \<and> (video_resolve e svc args w = (Inr (Resolved med), tmp, w1)
      \<and> uploadFile e (r_filepath med) = Inr file
      \<and> processFile e file (or_default (arg_prompt args) ''Describe this video'')
            (or_default (arg_modelname args) ''gemini-2.5-flash'') = Inr res
      \<and> \<not> response_isError res
    \<longrightarrow> fst (video_recognition e svc args w)
          = Inr \<lparr>content_text = response_text res, is_error = False\<rparr>
        \<and> (store_write_fails e w
             \<longrightarrow> mediaCollection (snd (video_recognition e svc args w)) = mediaCollection w
                 \<and> (saveToDb args
                       \<longrightarrow> (LogError, ''Failed to save to MongoDB'')
                             \<in> set (log_lines (snd (video_recognition e svc args w))))))
   \<and> ((\<exists>err. saveMedia e u f m b an w = Inl err) = store_write_fails e w)"
proof (intro conjI impI)
  assume a: "image_resolve e svc args w = (Inr (Resolved med), tmp, w1)
      \<and> uploadFile e (r_filepath med) = Inr file
      \<and> processFile e file (or_default (arg_prompt args) ''Describe this image'')
            (or_default (arg_modelname args) ''gemini-2.5-flash'') = Inr res
      \<and> \<not> response_isError res"
  then have an: "image_analyse e args med w1
      = (Inr \<lparr>content_text = response_text res, is_error = False\<rparr>,
         save_step e med \<lparr>prompt = or_default (arg_prompt args) ''Describe this image'',
                          result = response_text res,
                          model = or_default (arg_modelname args) ''gemini-2.5-flash''\<rparr> w1)"
    by (simp add: image_analyse_def Let_def)
  from a an show "fst (image_recognition e svc args w)
          = Inr \<lparr>content_text = response_text res, is_error = False\<rparr>"
    by (simp add: image_recognition_def cleanup_finally_fst)
  assume f: "store_write_fails e w"
  from a have st: "mediaCollection w1 = mediaCollection w"
    using image_resolve_store by blast
  with f have "store_write_fails e w1" by (simp add: store_write_fails_def)
  note sf = save_step_failed[OF this]
  from sf a an st
  show "mediaCollection (snd (image_recognition e svc args w)) = mediaCollection w"
    by (simp add: image_recognition_def cleanup_finally_frame)
  from sf a an
  show "(LogError, ''Failed to save to MongoDB'')
          \<in> set (log_lines (snd (image_recognition e svc args w)))"
    by (simp add: image_recognition_def cleanup_finally_log_mono)
next
  assume a: "video_resolve e svc args w = (Inr (Resolved med), tmp, w1)
      \<and> uploadFile e (r_filepath med) = Inr file
      \<and> processFile e file (or_default (arg_prompt args) ''Describe this video'')
            (or_default (arg_modelname args) ''gemini-2.5-flash'') = Inr res
      \<and> \<not> response_isError res"
  then have an: "video_analyse e args med w1
      = (Inr \<lparr>content_text = response_text res, is_error = False\<rparr>,
         if saveToDb args
         then save_step e med \<lparr>prompt = or_default (arg_prompt args) ''Describe this video'',
                          result = response_text res,
                          model = or_default (arg_modelname args) ''gemini-2.5-flash''\<rparr> w1
         else w1)"
    by (simp add: video_analyse_def Let_def)
  from a an show "fst (video_recognition e svc args w)
          = Inr \<lparr>content_text = response_text res, is_error = False\<rparr>"
    by (simp add: video_recognition_def cleanup_finally_fst)
  assume f: "store_write_fails e w"
  from a have st: "mediaCollection w1 = mediaCollection w"
    using video_resolve_store by blast
  with f have "store_write_fails e w1" by (simp add: store_write_fails_def)
  note sf = save_step_failed[OF this]
  from sf a an st
  show "mediaCollection (snd (video_recognition e svc args w)) = mediaCollection w"
    by (simp add: video_recognition_def cleanup_finally_frame)
  assume "saveToDb args"
  with sf a an
  show "(LogError, ''Failed to save to MongoDB'')
          \<in> set (log_lines (snd (video_recognition e svc args w)))"
    by (simp add: video_recognition_def cleanup_finally_log_mono)
next
  show "(\<exists>err. saveMedia e u f m b an w = Inl err) = store_write_fails e w"
    by (rule saveMedia_throws_iff)
qed

theorem persistence_failure_isolation_witness:
  "image_resolve readonly_env example_svc cat_args empty_world
     = (Inr (Resolved cat_media), Some (filepath cat_download), downloaded_world empty_world)
   \<and> uploadFile readonly_env (r_filepath cat_media) = Inr \<lparr>uri = ''files/cat'', file_mimeType = ''image/png''\<rparr>
   \<and> processFile readonly_env \<lparr>uri = ''files/cat'', file_mimeType = ''image/png''\<rparr>
        (or_default (arg_prompt cat_args) ''Describe this image'')
        (or_default (arg_modelname cat_args) ''gemini-2.5-flash'') = Inr cat_response
   \<and> \<not> response_isError cat_response
   \<and> store_write_fails readonly_env empty_world
   \<and> fst (image_recognition readonly_env example_svc cat_args empty_world)
       = Inr \<lparr>content_text = ''A cat on a sofa.'', is_error = False\<rparr>
   \<and> mediaCollection (snd (image_recognition readonly_env example_svc cat_args empty_world)) = Some []
   \<and> (LogError, ''Failed to save to MongoDB'')
         \<in> set (log_lines (snd (image_recognition readonly_env example_svc cat_args empty_world)))
   \<and> video_resolve readonly_env example_svc clip_args clip_world = (Inr (Resolved clip_media), None, clip_world)
   \<and> store_write_fails readonly_env clip_world
   \<and> fst (video_recognition readonly_env example_svc clip_args clip_world)
       = Inr \<lparr>content_text = ''A cat on a sofa.'', is_error = False\<rparr>
   \<and> mediaCollection (snd (video_recognition readonly_env example_svc clip_args clip_world)) = Some []
   \<and> saveToDb clip_args
   \<and> (LogError, ''Failed to save to MongoDB'')
         \<in> set (log_lines (snd (video_recognition readonly_env example_svc clip_args clip_world)))"
proof -
  have r: "image_resolve readonly_env example_svc cat_args empty_world
     = (Inr (Resolved cat_media), Some (filepath cat_download), downloaded_world empty_world)"
    by (rule cat_image_resolve) (simp_all add: readonly_env_def example_env_def cat_args_def)
  have v: "video_resolve readonly_env example_svc clip_args clip_world = (Inr (Resolved clip_media), None, clip_world)"
    by (rule clip_video_resolve) (simp_all add: readonly_env_def)
  have u: "uploadFile readonly_env p = Inr \<lparr>uri = ''files/cat'', file_mimeType = ''image/png''\<rparr>" for p
    by (simp add: readonly_env_def example_env_def)
  have p: "processFile readonly_env f x y = Inr cat_response" for f x y
    by (simp add: readonly_env_def example_env_def cat_response_def)
  have n: "\<not> response_isError cat_response" "response_text cat_response = ''A cat on a sofa.''"
    by (simp_all add: cat_response_def)
  have s: "store_write_fails readonly_env empty_world" "store_write_fails readonly_env clip_world"
    by (simp_all add: store_write_fails_def readonly_env_def)
  have sd: "saveToDb clip_args" by (simp add: clip_args_def)
  have m: "mediaCollection empty_world = Some []" "mediaCollection clip_world = Some []"
    by (simp_all add: empty_world_def clip_world_def)
  from persistence_failure_isolation[of readonly_env example_svc cat_args empty_world cat_media
         "Some (filepath cat_download)" "downloaded_world empty_world"
         "\<lparr>uri = ''files/cat'', file_mimeType = ''image/png''\<rparr>" cat_response]
       r u p n s m
  have i: "fst (image_recognition readonly_env example_svc cat_args empty_world)
       = Inr \<lparr>content_text = ''A cat on a sofa.'', is_error = False\<rparr>
     \<and> mediaCollection (snd (image_recognition readonly_env example_svc cat_args empty_world)) = Some []
     \<and> (LogError, ''Failed to save to MongoDB'')
         \<in> set (log_lines (snd (image_recognition readonly_env example_svc cat_args empty_world)))"
    by simp
  from persistence_failure_isolation[of readonly_env example_svc clip_args clip_world clip_media
         None clip_world "\<lparr>uri = ''files/cat'', file_mimeType = ''image/png''\<rparr>" cat_response]
       v u p n s m sd
  have j: "fst (video_recognition readonly_env example_svc clip_args clip_world)
       = Inr \<lparr>content_text = ''A cat on a sofa.'', is_error = False\<rparr>
     \<and> mediaCollection (snd (video_recognition readonly_env example_svc clip_args clip_world)) = Some []
     \<and> (LogError, ''Failed to save to MongoDB'')
         \<in> set (log_lines (snd (video_recognition readonly_env example_svc clip_args clip_world)))"
    by simp
  show ?thesis using r u p n s i v j sd by simp
qed

section \<open>Release of the temp file\<close>









section \<open>A response without Content-Type\<close>

lemma octet_stream_unsupported: "\<not> isSupported ''application/octet-stream''"
  by (simp add: isSupported_def split_first_def trim_def isWhiteSpace_def toLowerCase_def
        toLowerChar_def supportedMimeTypes_def)

lemma tryStrategy_no_content_type:
  assumes "axios_get e url h (maxFileSize svc) = Inr response"
      and "\<not> truthy (resp_headers response ''content-type'')"
      and "case axios_head e url h of
             Inl err \<Rightarrow> True
           | Inr probe \<Rightarrow> \<not> truthy (resp_headers probe ''content-type'')"
      and "length (resp_data response) \<le> maxFileSize svc"
      and "write_error e (path_join (tempDir svc) (generateFilename e url ''application/octet-stream'')) = None"
  shows "fst (tryStrategy e svc url h w)
           = Inr \<lparr>filepath = path_join (tempDir svc) (generateFilename e url ''application/octet-stream''),
                  filename = generateFilename e url ''application/octet-stream'',
                  mimeType = ''application/octet-stream'',
                  fileData = resp_data response,
                  fileSize = length (resp_data response)\<rparr>"
proof -
  have nd: "or_default v ''application/octet-stream'' = ''application/octet-stream''"
    if "\<not> truthy v" for v
    using that by (auto simp: truthy_def or_default_def split: option.splits)
  show ?thesis
  proof (cases "axios_head e url h")
    case (Inl err)
    with assms show ?thesis
      by (simp add: tryStrategy_def Let_def writeFileSync_def nd truthy_def)
  next
    case (Inr probe)
    with assms show ?thesis
      by (simp add: tryStrategy_def Let_def writeFileSync_def nd)
  qed
qed

lemma class_mismatch:
  assumes "arg_url args = Some url" "url \<noteq> []" "cache_miss e w url"
      and "downloadMedia e svc url w = (Inr d, w1)"
      and "mimeType d = ''application/octet-stream''"
  shows "fst (image_recognition e svc args w)
           = Inr \<lparr>content_text = ''Error processing image: URL does not point to an image file. MIME type: application/octet-stream'',
                  is_error = True\<rparr>"
    and "fst (video_recognition e svc args w)
           = Inr \<lparr>content_text = ''Error processing video: URL does not point to a video file. MIME type: application/octet-stream'',
                  is_error = True\<rparr>"
proof -
  from assms have
    "image_resolve e svc args w
       = (Inl (PlainError (''URL does not point to an image file. MIME type: '' @ mimeType d)),
          Some (filepath d), w1)"
    by (auto simp: image_resolve_def given_def truthy_def cache_miss_def startsWith_def
             split: sum.splits option.splits)
  with assms(5) show "fst (image_recognition e svc args w)
           = Inr \<lparr>content_text = ''Error processing image: URL does not point to an image file. MIME type: application/octet-stream'',
                  is_error = True\<rparr>"
    by (simp add: image_recognition_def cleanup_finally_fst image_catch_def)
  from assms have
    "video_resolve e svc args w
       = (Inl (PlainError (''URL does not point to a video file. MIME type: '' @ mimeType d)),
          Some (filepath d), w1)"
    by (auto simp: video_resolve_def given_def truthy_def cache_miss_def startsWith_def
             split: sum.splits option.splits)
  with assms(5) show "fst (video_recognition e svc args w)
           = Inr \<lparr>content_text = ''Error processing video: URL does not point to a video file. MIME type: application/octet-stream'',
                  is_error = True\<rparr>"
    by (simp add: video_recognition_def cleanup_finally_fst video_catch_def)
qed

text \<open>
  Claim C10. Let \<open>h\<close> be the first header set that is not refused. When the GET
  with \<open>h\<close> is answered without a Content-Type header (absent or empty), the HEAD
  probe failed or gave none either, the body is within the size limit and the temp
  file can be written, the download succeeds with MIME type
  \<open>application/octet-stream\<close>, although that type is not on the allow-list: the
  allow-list test was not applied. The tool that asked for the download then rejects
  the payload with its class-prefix check.
\<close>

theorem missing_content_type:
  assumes "getStrategiesForUrl url = pre @ h # rest"
      and "\<forall>x \<in> set pre. access_denied e svc url x"
      and "axios_get e url h (maxFileSize svc) = Inr response"
      and "\<not> truthy (resp_headers response ''content-type'')"
      and "case axios_head e url h of
             Inl err \<Rightarrow> True
           | Inr probe \<Rightarrow> \<not> truthy (resp_headers probe ''content-type'')"
      and "length (resp_data response) \<le> maxFileSize svc"
      and "write_error e (path_join (tempDir svc) (generateFilename e url ''application/octet-stream'')) = None"
  shows "(\<exists>r w'. downloadMedia e svc url w = (Inr r, w')
            \<and> mimeType r = ''application/octet-stream''
            \<and> fileData r = resp_data response
            \<and> \<not> isSupported (mimeType r))
       \<and> (arg_url args = Some url \<and> url \<noteq> [] \<and> cache_miss e w url
            \<longrightarrow> fst (image_recognition e svc args w)
                  = Inr \<lparr>content_text = ''Error processing image: URL does not point to an image file. MIME type: application/octet-stream'',
                         is_error = True\<rparr>
                \<and> fst (video_recognition e svc args w)
                  = Inr \<lparr>content_text = ''Error processing video: URL does not point to a video file. MIME type: application/octet-stream'',
                         is_error = True\<rparr>)"
proof -
  let ?r = "\<lparr>filepath = path_join (tempDir svc) (generateFilename e url ''application/octet-stream''),
             filename = generateFilename e url ''application/octet-stream'',
             mimeType = ''application/octet-stream'',
             fileData = resp_data response,
             fileSize = length (resp_data response)\<rparr>"
  from downloadLoop_denied_prefix[OF assms(2), of "h # rest" None w] obtain le' where
    skip: "downloadLoop e svc url (pre @ h # rest) None w
             = downloadLoop e svc url (h # rest) le'
                 (w\<lparr>requests := requests w @ attempts_trace url pre\<rparr>)"
    by auto
  let ?w1 = "w\<lparr>requests := requests w @ attempts_trace url pre\<rparr>"
  have ok: "fst (tryStrategy e svc url h ?w1) = Inr ?r"
    by (rule tryStrategy_no_content_type[OF assms(3-7)])
  from tryStrategy_success[OF ok] skip obtain w' where
    loop: "downloadLoop e svc url (pre @ h # rest) None w = (Inr ?r, w')"
    by simp
  then have dl: "downloadMedia e svc url w = (Inr ?r, w')"
    by (simp add: downloadMedia_def downloadWithRetry_def assms(1))
  have first: "\<exists>r w'. downloadMedia e svc url w = (Inr r, w')
            \<and> mimeType r = ''application/octet-stream''
            \<and> fileData r = resp_data response
            \<and> \<not> isSupported (mimeType r)"
    using dl octet_stream_unsupported by (intro exI[of _ ?r] exI[of _ w']) simp
  have second: "fst (image_recognition e svc args w)
                  = Inr \<lparr>content_text = ''Error processing image: URL does not point to an image file. MIME type: application/octet-stream'',
                         is_error = True\<rparr>
                \<and> fst (video_recognition e svc args w)
                  = Inr \<lparr>content_text = ''Error processing video: URL does not point to a video file. MIME type: application/octet-stream'',
                         is_error = True\<rparr>"
    if "arg_url args = Some url \<and> url \<noteq> [] \<and> cache_miss e w url"
    using class_mismatch[of args url e w svc ?r w'] that dl by simp
  from first second show ?thesis by blast
qed

theorem missing_content_type_witness:
  "getStrategiesForUrl cat_url
     = [hd default_strategies] @ (default_strategies ! 1) # [default_strategies ! 2]
   \<and> access_denied bare_env example_svc cat_url (hd default_strategies)
   \<and> axios_get bare_env cat_url (default_strategies ! 1) (maxFileSize example_svc) = Inr bare_response
   \<and> \<not> truthy (resp_headers bare_response ''content-type'')
   \<and> axios_head bare_env cat_url (default_strategies ! 1) = Inl probe_timeout
   \<and> length (resp_data bare_response) \<le> maxFileSize example_svc
   \<and> arg_url cat_args = Some cat_url \<and> cat_url \<noteq> [] \<and> cache_miss bare_env empty_world cat_url
   \<and> (\<exists>r w'. downloadMedia bare_env example_svc cat_url empty_world = (Inr r, w')
         \<and> mimeType r = ''application/octet-stream'' \<and> fileData r = ''RAW''
         \<and> \<not> isSupported (mimeType r))
   \<and> fst (image_recognition bare_env example_svc cat_args empty_world)
       = Inr \<lparr>content_text = ''Error processing image: URL does not point to an image file. MIME type: application/octet-stream'',
              is_error = True\<rparr>
   \<and> fst (video_recognition bare_env example_svc cat_args empty_world)
       = Inr \<lparr>content_text = ''Error processing video: URL does not point to a video file. MIME type: application/octet-stream'',
              is_error = True\<rparr>"
proof -
  have s: "getStrategiesForUrl cat_url
     = [hd default_strategies] @ (default_strategies ! 1) # [default_strategies ! 2]"
    using cat_strategies default_strategies_split by simp
  have d: "\<forall>x \<in> set [hd default_strategies]. access_denied bare_env example_svc cat_url x"
    using bare_env_facts(1) by simp
  have p: "case axios_head bare_env cat_url (default_strategies ! 1) of
             Inl err \<Rightarrow> True
           | Inr probe \<Rightarrow> \<not> truthy (resp_headers probe ''content-type'')"
    using bare_env_facts(4) by simp
  have w: "write_error bare_env (path_join (tempDir example_svc)
             (generateFilename bare_env cat_url ''application/octet-stream'')) = None"
    by (rule bare_env_facts(7))
  have a: "arg_url cat_args = Some cat_url" "cat_url \<noteq> []"
    by (simp_all add: cat_args_def cat_url_def)
  have m: "cache_miss bare_env empty_world cat_url"
    by (simp add: cache_miss_def findByUrl_def empty_world_def bare_env_def example_env_def)
  have b: "resp_data bare_response = ''RAW''" by (simp add: bare_response_def)
  from missing_content_type[OF s d bare_env_facts(2) bare_env_facts(3) p bare_env_facts(5) w,
         of empty_world cat_args] a m b
  have "(\<exists>r w'. downloadMedia bare_env example_svc cat_url empty_world = (Inr r, w')
         \<and> mimeType r = ''application/octet-stream'' \<and> fileData r = ''RAW''
         \<and> \<not> isSupported (mimeType r))
   \<and> fst (image_recognition bare_env example_svc cat_args empty_world)
       = Inr \<lparr>content_text = ''Error processing image: URL does not point to an image file. MIME type: application/octet-stream'',
              is_error = True\<rparr>
   \<and> fst (video_recognition bare_env example_svc cat_args empty_world)
       = Inr \<lparr>content_text = ''Error processing video: URL does not point to a video file. MIME type: application/octet-stream'',
              is_error = True\<rparr>"
    by simp
  then show ?thesis
    using s bare_env_facts(1-5) a m by blast
qed

section \<open>The persistence flag\<close>

text \<open>
  The video tool inserts nothing when \<open>saveToDb\<close> is false, on every path.
\<close>

lemma video_honours_saveToDb:
  assumes "\<not> saveToDb args"
  shows "mediaCollection (snd (video_recognition e svc args w)) = mediaCollection w"
proof -
  obtain res tmp w1 where r: "video_resolve e svc args w = (res, tmp, w1)"
    by (cases "video_resolve e svc args w")
  then have st: "mediaCollection w1 = mediaCollection w" by (rule video_resolve_store)
  have an: "mediaCollection (snd (video_analyse e args med w1)) = mediaCollection w1" for med
    using assms by (simp add: video_analyse_def Let_def split: sum.splits)
  show ?thesis
  proof (cases res)
    case (Inl err)
    with r st show ?thesis by (simp add: video_recognition_def cleanup_finally_frame)
  next
    case (Inr x)
    show ?thesis
    proof (cases x)
      case (CacheHit c)
      with Inr r st show ?thesis by (simp add: video_recognition_def cleanup_finally_frame)
    next
      case (Resolved med)
      obtain o2 w2 where a: "video_analyse e args med w1 = (o2, w2)"
        by (cases "video_analyse e args med w1")
      with an[of med] have "mediaCollection w2 = mediaCollection w1" by simp
      with Resolved Inr r st a show ?thesis
        by (cases o2) (simp_all add: video_recognition_def cleanup_finally_frame)
    qed
  qed
qed

text \<open>
  Claim C8, at a request with \<open>saveToDb = false\<close> for a picture that is not in the
  store: the image tool answers with the analysis and inserts one document into the
  empty collection. The video tool, asked with \<open>saveToDb = false\<close> for a local
  clip, answers with the analysis and leaves the collection empty.
\<close>

theorem image_tool_ignores_saveToDb:
  "saveToDb (cat_args\<lparr>saveToDb := False\<rparr>) = False
   \<and> mediaCollection empty_world = Some []
   \<and> fst (image_recognition example_env example_svc (cat_args\<lparr>saveToDb := False\<rparr>) empty_world)
       = Inr \<lparr>content_text = ''A cat on a sofa.'', is_error = False\<rparr>
   \<and> mediaCollection (snd (image_recognition example_env example_svc
                              (cat_args\<lparr>saveToDb := False\<rparr>) empty_world))
       = Some [stored_cat]
   \<and> fst (video_recognition example_env example_svc (clip_args\<lparr>saveToDb := False\<rparr>) clip_world)
       = Inr \<lparr>content_text = ''A cat on a sofa.'', is_error = False\<rparr>
   \<and> mediaCollection (snd (video_recognition example_env example_svc
                              (clip_args\<lparr>saveToDb := False\<rparr>) clip_world))
       = Some []"
proof -
  let ?args = "cat_args\<lparr>saveToDb := False\<rparr>"
  have r: "image_resolve example_env example_svc ?args empty_world
     = (Inr (Resolved cat_media), Some (filepath cat_download), downloaded_world empty_world)"
    by (rule cat_image_resolve) (simp_all add: example_env_def cat_args_def)
  have sv: "save_step example_env cat_media
              \<lparr>prompt = ''How many cats?'', result = ''A cat on a sofa.'', model = ''gemini-2.5-pro''\<rparr>
              (downloaded_world empty_world)
            = (downloaded_world empty_world)\<lparr>mediaCollection := Some [stored_cat]\<rparr>"
    by (simp add: save_step_def cat_media_def given_def truthy_def cat_url_def saveMedia_def
          downloaded_world_def empty_world_def example_env_def Let_def stored_cat_def)
  have an: "image_analyse example_env ?args cat_media (downloaded_world empty_world)
     = (Inr \<lparr>content_text = ''A cat on a sofa.'', is_error = False\<rparr>,
        (downloaded_world empty_world)\<lparr>mediaCollection := Some [stored_cat]\<rparr>)"
    using sv
    by (simp add: image_analyse_def Let_def cat_args_def or_default_def example_env_def)
  have i: "fst (image_recognition example_env example_svc ?args empty_world)
       = Inr \<lparr>content_text = ''A cat on a sofa.'', is_error = False\<rparr>"
    "mediaCollection (snd (image_recognition example_env example_svc ?args empty_world))
       = Some [stored_cat]"
    using r an by (simp_all add: image_recognition_def cleanup_finally_fst cleanup_finally_frame)
  have v: "mediaCollection (snd (video_recognition example_env example_svc
                                   (clip_args\<lparr>saveToDb := False\<rparr>) clip_world)) = Some []"
    using video_honours_saveToDb[of "clip_args\<lparr>saveToDb := False\<rparr>" example_env example_svc clip_world]
    by (simp add: clip_world_def empty_world_def)
  show ?thesis using i v clip_video_answer by (simp add: empty_world_def)
qed

end
